theory Spec2Isabelle
  imports Main
begin

section \<open>Data model\<close>

text \<open>
  The reconciler of \<^verbatim>\<open>cloud/aws/services/ec2\<close> (vpc.go, routetables.go) drives the
  EC2 client of the AWS SDK. The SDK is an external collaborator: its client is a
  parameter of the model (a record of operations over an abstract provider state
  \<open>'p\<close>), and every method of the source takes the provider state and returns the new
  one together with its Go result. A Go \<^verbatim>\<open>error\<close> result is \<open>error option\<close>
  (\<open>None\<close> is \<^verbatim>\<open>nil\<close>), a Go \<^verbatim>\<open>(value, error)\<close> result is \<open>error + value\<close>.

  Fields of SDK responses that the source dereferences without a nil check
  (\<^verbatim>\<open>*out.Vpc.VpcId\<close>, \<^verbatim>\<open>*out.RouteTable.RouteTableId\<close>, ...) are plain strings: the
  provider type of the model only produces responses that carry them. Pointers the
  source does test (\<^verbatim>\<open>as.SubnetId\<close>, \<^verbatim>\<open>in.InternetGatewayID\<close>) are options.

  The logging calls (\<^verbatim>\<open>glog\<close>) have no part in any result and are left out.
  \<^verbatim>\<open>ReconcileNetwork\<close> (network.go) runs reconcileVPC, three reconcilers that are
  declared in other files of the package, and reconcileRouteTables, returning the first
  error; the two reconcilers of the pipeline whose source is at hand are modelled here.
\<close>

subsection \<open>SDK types (package ec2 of aws-sdk-go), as far as the source reads them\<close>

record ec2_Vpc =
  VpcId :: string
  CidrBlock :: string

record ec2_Filter =
  Name :: string
  Values :: "string list"

record DescribeVpcsInput =
  VpcIds :: "string list"
  Filters :: "ec2_Filter list"

text \<open>The fields of \<^verbatim>\<open>ec2.Route\<close> that createRouteTableWithRoutes copies.\<close>

record ec2_Route =
  DestinationCidrBlock :: "string option"
  DestinationIpv6CidrBlock :: "string option"
  EgressOnlyInternetGatewayId :: "string option"
  GatewayId :: "string option"
  InstanceId :: "string option"
  NatGatewayId :: "string option"
  NetworkInterfaceId :: "string option"
  VpcPeeringConnectionId :: "string option"

text \<open>\<^verbatim>\<open>ec2.CreateRouteInput\<close>: the route table and the eight copied fields.\<close>

record CreateRouteInput =
  RouteTableId :: string
  Route :: ec2_Route

record ec2_RouteTableAssociation =
  SubnetId :: "string option"

record ec2_RouteTable =
  RouteTableId :: string
  VpcId :: string
  Associations :: "ec2_RouteTableAssociation list"
  Routes :: "ec2_Route list"

subsection \<open>Errors\<close>

text \<open>
  A provider-defined error is an opaque \<open>awserr\<close>. The errors of the core are built
  with \<^verbatim>\<open>errors.Errorf\<close>, \<^verbatim>\<open>errors.Wrap\<close>/\<^verbatim>\<open>errors.Wrapf\<close> (format string and arguments
  kept apart) and the two sentinel constructors \<^verbatim>\<open>NewNotFound\<close>, \<^verbatim>\<open>NewConflict\<close>.
\<close>

type_synonym awserr = string

datatype fmtarg =
  Str string
  | VpcsOut "ec2_Vpc list"
  | RouteOut ec2_Route

datatype error =
  AWSError awserr
  | Errorf string "fmtarg list"
  | Wrapf error string "fmtarg list"
  | NewNotFound error
  | NewConflict error

text \<open>
  Modelled from the spec: \<^verbatim>\<open>IsNotFound\<close> is declared in a file of the package that is
  not among the sources. Section 9 of the specification: NotFound and Conflict are
  sentinel types told apart by a type assertion on the error.
\<close>

fun IsNotFound :: "error \<Rightarrow> bool" where
  "IsNotFound (NewNotFound e) = True"
| "IsNotFound e = False"

subsection \<open>Desired state (package v1alpha1)\<close>

text \<open>
  Modelled from the spec: the declarations of \<^verbatim>\<open>v1alpha1.VPC\<close>, \<^verbatim>\<open>Subnet\<close>,
  \<^verbatim>\<open>RouteTable\<close> and \<^verbatim>\<open>Network\<close> are not among the sources. The records hold the
  fields the source reads and writes (section 3 of the specification). The subnet list
  is a slice of pointers: the assignment to \<^verbatim>\<open>sn.RouteTableID\<close> in the loop reaches the
  caller's subnet (section 4.4, step 2b). The model keeps the subnets by value in list
  order and writes the update at the subnet's position; the pointers of the slice are
  taken to be pairwise distinct.
\<close>

record VPC =
  ID :: string
  CidrBlock :: string

record Subnet =
  ID :: string
  IsPublic :: bool
  RouteTableID :: "string option"

record RouteTable =
  ID :: string

record Network =
  VPC :: VPC
  Subnets :: "Subnet list"
  InternetGatewayID :: "string option"

datatype ResourceLifecycle = ResourceLifecycleOwned

subsection \<open>The service and its collaborators\<close>

text \<open>
  \<open>EC2API\<close> is the part of the SDK client the two files call. \<open>Service\<close> is the
  receiver \<^verbatim>\<open>s *Service\<close>: its client \<^verbatim>\<open>s.EC2\<close>, and the three methods of the package
  that the two files call but that are declared elsewhere (\<^verbatim>\<open>createTags\<close>,
  \<^verbatim>\<open>addTagFilters\<close>, \<^verbatim>\<open>getNatGatewayForSubnet\<close>), taken as parameters.
\<close>

record 'p EC2API =
  DescribeVpcs :: "DescribeVpcsInput \<Rightarrow> 'p \<Rightarrow> (awserr + ec2_Vpc list) \<times> 'p"
  CreateVpc :: "string \<Rightarrow> 'p \<Rightarrow> (awserr + ec2_Vpc) \<times> 'p"
  WaitUntilVpcAvailable :: "DescribeVpcsInput \<Rightarrow> 'p \<Rightarrow> awserr option \<times> 'p"
  DeleteVpc :: "string \<Rightarrow> 'p \<Rightarrow> awserr option \<times> 'p"
  DescribeRouteTables :: "ec2_Filter list \<Rightarrow> 'p \<Rightarrow> (awserr + ec2_RouteTable list) \<times> 'p"
  CreateRouteTable :: "string \<Rightarrow> 'p \<Rightarrow> (awserr + ec2_RouteTable) \<times> 'p"
  CreateRoute :: "CreateRouteInput \<Rightarrow> 'p \<Rightarrow> awserr option \<times> 'p"
  AssociateRouteTable :: "string \<Rightarrow> string \<Rightarrow> 'p \<Rightarrow> awserr option \<times> 'p"

record 'p Service =
  EC2 :: "'p EC2API"
  createTags :: "string \<Rightarrow> string \<Rightarrow> ResourceLifecycle \<Rightarrow> (string \<times> string) list
                 \<Rightarrow> 'p \<Rightarrow> error option \<times> 'p"
  addTagFilters :: "string \<Rightarrow> ec2_Filter list \<Rightarrow> ec2_Filter list"
  getNatGatewayForSubnet :: "Subnet list \<Rightarrow> Subnet \<Rightarrow> error + string"

section \<open>vpc.go\<close>

definition defaultVpcCidr :: string where
  "defaultVpcCidr = ''10.0.0.0/16''"

text \<open>describeVPC, lines 94-119 (the parameter \<^verbatim>\<open>id\<close> is \<open>vpcID\<close> here).\<close>

definition describeVPC :: "'p Service \<Rightarrow> string \<Rightarrow> string \<Rightarrow> 'p \<Rightarrow> (error + VPC) \<times> 'p" where
  "describeVPC s clusterName vpcID p =
     (let input =
        (if vpcID = []
         then \<lparr>VpcIds = [], Filters = addTagFilters s clusterName []\<rparr>
         else \<lparr>VpcIds = [vpcID], Filters = []\<rparr>)
      in case DescribeVpcs (EC2 s) input p of
           (Inl err, p') \<Rightarrow> (Inl (AWSError err), p')
         | (Inr out, p') \<Rightarrow>
             if length out = 0
             then (Inl (NewNotFound (Errorf ''could not find vpc %q'' [Str vpcID])), p')
             else if length out > 1
             then (Inl (NewConflict (Errorf
                    ''found more than one vpc with supplied filters. Please clean up extra VPCs: %s''
                    [VpcsOut out])), p')
             else (Inr \<lparr>VPC.ID = ec2_Vpc.VpcId (out ! 0),
                        VPC.CidrBlock = ec2_Vpc.CidrBlock (out ! 0)\<rparr>, p'))"

text \<open>
  createVPC, lines 48-77. The second component of the result is the caller's struct
  \<^verbatim>\<open>v\<close> as the call leaves it.
\<close>

definition createVPC :: "'p Service \<Rightarrow> string \<Rightarrow> VPC \<Rightarrow> 'p \<Rightarrow> (error + VPC) \<times> VPC \<times> 'p" where
  "createVPC s clusterName v0 p =
     (let v = (if VPC.CidrBlock v0 = [] then v0\<lparr>VPC.CidrBlock := defaultVpcCidr\<rparr> else v0)
      in case CreateVpc (EC2 s) (VPC.CidrBlock v) p of
           (Inl err, p1) \<Rightarrow> (Inl (Wrapf (AWSError err) ''failed to create vpc'' []), v, p1)
         | (Inr out, p1) \<Rightarrow>
             (case WaitUntilVpcAvailable (EC2 s)
                     \<lparr>VpcIds = [ec2_Vpc.VpcId out], Filters = []\<rparr> p1 of
                (Some err, p2) \<Rightarrow>
                  (Inl (Wrapf (AWSError err) ''failed to wait for vpc %q''
                          [Str (ec2_Vpc.VpcId out)]), v, p2)
              | (None, p2) \<Rightarrow>
                  (case createTags s clusterName (ec2_Vpc.VpcId out) ResourceLifecycleOwned [] p2 of
                     (Some err, p3) \<Rightarrow>
                       (Inl (Wrapf err ''failed to tag vpc %q'' [Str (ec2_Vpc.VpcId out)]), v, p3)
                   | (None, p3) \<Rightarrow>
                       (Inr \<lparr>VPC.ID = ec2_Vpc.VpcId out,
                             VPC.CidrBlock = ec2_Vpc.CidrBlock out\<rparr>, v, p3))))"

text \<open>
  reconcileVPC, lines 28-46. \<^verbatim>\<open>vpc.DeepCopyInto(in)\<close> overwrites the caller's struct
  with the observed one; on an error return the struct is left as createVPC left it.
\<close>

definition reconcileVPC :: "'p Service \<Rightarrow> string \<Rightarrow> VPC \<Rightarrow> 'p \<Rightarrow> error option \<times> VPC \<times> 'p" where
  "reconcileVPC s clusterName v p =
     (case describeVPC s clusterName (VPC.ID v) p of
        (Inl err, p1) \<Rightarrow>
          if IsNotFound err
          then (case createVPC s clusterName v p1 of
                  (Inl err', v', p2) \<Rightarrow> (Some err', v', p2)
                | (Inr vpc, v', p2) \<Rightarrow> (None, vpc, p2))
          else (Some err, v, p1)
      | (Inr vpc, p1) \<Rightarrow> (None, vpc, p1))"

text \<open>deleteVPC, lines 79-92.\<close>

definition deleteVPC :: "'p Service \<Rightarrow> VPC \<Rightarrow> 'p \<Rightarrow> error option \<times> 'p" where
  "deleteVPC s v p =
     (case DeleteVpc (EC2 s) (VPC.ID v) p of
        (Some err, p') \<Rightarrow> (Some (Wrapf (AWSError err) ''failed to delete vpc %q'' [Str (VPC.ID v)]), p')
      | (None, p') \<Rightarrow> (None, p'))"

section \<open>routetables.go\<close>

text \<open>describeVpcRouteTables, lines 96-111.\<close>

definition describeVpcRouteTables ::
  "'p Service \<Rightarrow> string \<Rightarrow> 'p \<Rightarrow> (error + ec2_RouteTable list) \<times> 'p" where
  "describeVpcRouteTables s vpcID p =
     (case DescribeRouteTables (EC2 s) [\<lparr>Name = ''vpc-id'', Values = [vpcID]\<rparr>] p of
        (Inl err, p') \<Rightarrow>
          (Inl (Wrapf (AWSError err) ''failed to describe route tables in vpc %q'' [Str vpcID]), p')
      | (Inr out, p') \<Rightarrow> (Inr out, p'))"

text \<open>
  describeVpcRouteTablesBySubnet, lines 74-94: the inner loop over the associations of
  one table, the outer loop over the tables, and the method.
\<close>

fun associationsLoop ::
  "(string \<rightharpoonup> ec2_RouteTable) \<Rightarrow> ec2_RouteTable \<Rightarrow> ec2_RouteTableAssociation list
   \<Rightarrow> (string \<rightharpoonup> ec2_RouteTable)" where
  "associationsLoop res rt [] = res"
| "associationsLoop res rt (as # rest) =
     (case SubnetId as of
        None \<Rightarrow> associationsLoop res rt rest
      | Some sid \<Rightarrow> associationsLoop (res(sid \<mapsto> rt)) rt rest)"

fun tablesLoop ::
  "(string \<rightharpoonup> ec2_RouteTable) \<Rightarrow> ec2_RouteTable list \<Rightarrow> (string \<rightharpoonup> ec2_RouteTable)" where
  "tablesLoop res [] = res"
| "tablesLoop res (rt # rts) = tablesLoop (associationsLoop res rt (Associations rt)) rts"

definition describeVpcRouteTablesBySubnet ::
  "'p Service \<Rightarrow> string \<Rightarrow> 'p \<Rightarrow> (error + (string \<rightharpoonup> ec2_RouteTable)) \<times> 'p" where
  "describeVpcRouteTablesBySubnet s vpcID p =
     (case describeVpcRouteTables s vpcID p of
        (Inl err, p') \<Rightarrow> (Inl err, p')
      | (Inr rts, p') \<Rightarrow> (Inr (tablesLoop Map.empty rts), p'))"

text \<open>The zero value of \<^verbatim>\<open>ec2.Route\<close>: every pointer nil.\<close>

definition zeroRoute :: ec2_Route where
  "zeroRoute =
     \<lparr>DestinationCidrBlock = None, DestinationIpv6CidrBlock = None,
      EgressOnlyInternetGatewayId = None, GatewayId = None, InstanceId = None,
      NatGatewayId = None, NetworkInterfaceId = None, VpcPeeringConnectionId = None\<rparr>"

text \<open>getDefaultPrivateRoutes, lines 159-166, and getDefaultPublicRoutes, lines 168-175.\<close>

definition getDefaultPrivateRoutes :: "string \<Rightarrow> ec2_Route list" where
  "getDefaultPrivateRoutes natGatewayId =
     [zeroRoute\<lparr>DestinationCidrBlock := Some ''0.0.0.0/0'', NatGatewayId := Some natGatewayId\<rparr>]"

definition getDefaultPublicRoutes :: "string \<Rightarrow> ec2_Route list" where
  "getDefaultPublicRoutes internetGatewayId =
     [zeroRoute\<lparr>DestinationCidrBlock := Some ''0.0.0.0/0'', GatewayId := Some internetGatewayId\<rparr>]"

text \<open>
  The target fields of a route (section 3 of the specification: a route has a
  destination and a target): every field but the two destinations.
\<close>

definition routeTargets :: "ec2_Route \<Rightarrow> string option list" where
  "routeTargets r =
     [EgressOnlyInternetGatewayId r, GatewayId r, InstanceId r, NatGatewayId r,
      NetworkInterfaceId r, VpcPeeringConnectionId r]"

text \<open>
  createRouteTableWithRoutes, lines 113-144: the loop over the routes (lines 122-139),
  which returns at the first create-route call that fails, and the method.
\<close>

fun createRoutes ::
  "'p Service \<Rightarrow> ec2_RouteTable \<Rightarrow> ec2_Route list \<Rightarrow> 'p \<Rightarrow> error option \<times> 'p" where
  "createRoutes s out [] p = (None, p)"
| "createRoutes s out (route # routes) p =
     (case CreateRoute (EC2 s)
             \<lparr>CreateRouteInput.RouteTableId = ec2_RouteTable.RouteTableId out, Route = route\<rparr> p of
        (Some err, p') \<Rightarrow>
          (Some (Wrapf (AWSError err) ''failed to create route in route table %q: %s''
                   [Str (ec2_RouteTable.RouteTableId out), RouteOut route]), p')
      | (None, p') \<Rightarrow> createRoutes s out routes p')"

definition createRouteTableWithRoutes ::
  "'p Service \<Rightarrow> VPC \<Rightarrow> ec2_Route list \<Rightarrow> 'p \<Rightarrow> (error + RouteTable) \<times> 'p" where
  "createRouteTableWithRoutes s vpc routes p =
     (case CreateRouteTable (EC2 s) (VPC.ID vpc) p of
        (Inl err, p1) \<Rightarrow>
          (Inl (Wrapf (AWSError err) ''failed to create route table in vpc %q'' [Str (VPC.ID vpc)]), p1)
      | (Inr out, p1) \<Rightarrow>
          (case createRoutes s out routes p1 of
             (Some err, p2) \<Rightarrow> (Inl err, p2)
           | (None, p2) \<Rightarrow> (Inr \<lparr>RouteTable.ID = ec2_RouteTable.RouteTableId out\<rparr>, p2)))"

text \<open>associateRouteTable, lines 146-157.\<close>

definition associateRouteTable ::
  "'p Service \<Rightarrow> RouteTable \<Rightarrow> string \<Rightarrow> 'p \<Rightarrow> error option \<times> 'p" where
  "associateRouteTable s rt subnetID p =
     (case AssociateRouteTable (EC2 s) (RouteTable.ID rt) subnetID p of
        (Some err, p') \<Rightarrow>
          (Some (Wrapf (AWSError err) ''failed to associate route table %q to subnet %q''
                   [Str (RouteTable.ID rt), Str subnetID]), p')
      | (None, p') \<Rightarrow> (None, p'))"

text \<open>
  reconcileRouteTables, lines 24-72. \<open>subnetRoutes\<close> is the choice of the default routes
  of one subnet (lines 42-56); \<open>subnetsLoop\<close> is the loop over \<^verbatim>\<open>in.Subnets\<close> (lines
  32-69), with the subnets already visited in \<open>pre\<close> and the current one at the head of
  the remaining list, so that \<open>pre @ sn # rest\<close> is \<^verbatim>\<open>in.Subnets\<close> as the iteration sees
  it. The loop returns the Go result and the subnets as the pass leaves them.
\<close>

definition subnetRoutes ::
  "'p Service \<Rightarrow> Network \<Rightarrow> Subnet list \<Rightarrow> Subnet \<Rightarrow> error + ec2_Route list" where
  "subnetRoutes s net subnets sn =
     (if IsPublic sn
      then (case InternetGatewayID net of
              None \<Rightarrow>
                Inl (Errorf ''failed to create routing tables: internet gateway for %q is nil''
                       [Str (VPC.ID (VPC net))])
            | Some igw \<Rightarrow> Inr (getDefaultPublicRoutes igw))
      else (case getNatGatewayForSubnet s subnets sn of
              Inl err \<Rightarrow> Inl err
            | Inr natGatewayId \<Rightarrow> Inr (getDefaultPrivateRoutes natGatewayId)))"

fun subnetsLoop ::
  "'p Service \<Rightarrow> (string \<rightharpoonup> ec2_RouteTable) \<Rightarrow> Network \<Rightarrow> Subnet list \<Rightarrow> Subnet list \<Rightarrow> 'p
   \<Rightarrow> error option \<times> Subnet list \<times> 'p" where
  "subnetsLoop s subnetRouteMap net pre [] p = (None, pre, p)"
| "subnetsLoop s subnetRouteMap net pre (sn # rest) p =
     (case subnetRouteMap (Subnet.ID sn) of
        Some igw \<Rightarrow> subnetsLoop s subnetRouteMap net (pre @ [sn]) rest p
      | None \<Rightarrow>
          (case subnetRoutes s net (pre @ sn # rest) sn of
             Inl err \<Rightarrow> (Some err, pre @ sn # rest, p)
           | Inr routes \<Rightarrow>
               (case createRouteTableWithRoutes s (VPC net) routes p of
                  (Inl err, p1) \<Rightarrow> (Some err, pre @ sn # rest, p1)
                | (Inr rt, p1) \<Rightarrow>
                    (case associateRouteTable s rt (Subnet.ID sn) p1 of
                       (Some err, p2) \<Rightarrow> (Some err, pre @ sn # rest, p2)
                     | (None, p2) \<Rightarrow>
                         subnetsLoop s subnetRouteMap net
                           (pre @ [sn\<lparr>RouteTableID := Some (RouteTable.ID rt)\<rparr>]) rest p2))))"

definition reconcileRouteTables ::
  "'p Service \<Rightarrow> Network \<Rightarrow> 'p \<Rightarrow> error option \<times> Network \<times> 'p" where
  "reconcileRouteTables s net p =
     (case describeVpcRouteTablesBySubnet s (VPC.ID (VPC net)) p of
        (Inl err, p1) \<Rightarrow> (Some err, net, p1)
      | (Inr subnetRouteMap, p1) \<Rightarrow>
          (case subnetsLoop s subnetRouteMap net [] (Subnets net) p1 of
             (err, subnets, p2) \<Rightarrow> (err, net\<lparr>Subnets := subnets\<rparr>, p2)))"

section \<open>Recording the provider calls\<close>

text \<open>
  The claims speak of the calls a pass issues. \<open>recording s\<close> is the service \<open>s\<close>
  with a recording client: the provider state is paired with the list of the calls
  issued so far, oldest first, each with its input and the provider's reply. The
  methods of the source are run unchanged on \<open>recording s\<close>; a call to \<^verbatim>\<open>createTags\<close>
  (a method declared outside the two files) is recorded as one tagging call.
\<close>

datatype call =
  CallDescribeVpcs DescribeVpcsInput "awserr + ec2_Vpc list"
  | CallCreateVpc string "awserr + ec2_Vpc"
  | CallWaitUntilVpcAvailable DescribeVpcsInput "awserr option"
  | CallDeleteVpc string "awserr option"
  | CallDescribeRouteTables "ec2_Filter list" "awserr + ec2_RouteTable list"
  | CallCreateRouteTable string "awserr + ec2_RouteTable"
  | CallCreateRoute CreateRouteInput "awserr option"
  | CallAssociateRouteTable string string "awserr option"
  | CallCreateTags string string ResourceLifecycle "(string \<times> string) list" "error option"

definition recordingEC2 :: "'p EC2API \<Rightarrow> ('p \<times> call list) EC2API" where
  "recordingEC2 c =
     \<lparr>DescribeVpcs = (\<lambda>i (p, l). case DescribeVpcs c i p of
                         (r, p') \<Rightarrow> (r, (p', l @ [CallDescribeVpcs i r]))),
      CreateVpc = (\<lambda>i (p, l). case CreateVpc c i p of
                         (r, p') \<Rightarrow> (r, (p', l @ [CallCreateVpc i r]))),
      WaitUntilVpcAvailable = (\<lambda>i (p, l). case WaitUntilVpcAvailable c i p of
                         (r, p') \<Rightarrow> (r, (p', l @ [CallWaitUntilVpcAvailable i r]))),
      DeleteVpc = (\<lambda>i (p, l). case DeleteVpc c i p of
                         (r, p') \<Rightarrow> (r, (p', l @ [CallDeleteVpc i r]))),
      DescribeRouteTables = (\<lambda>i (p, l). case DescribeRouteTables c i p of
                         (r, p') \<Rightarrow> (r, (p', l @ [CallDescribeRouteTables i r]))),
      CreateRouteTable = (\<lambda>i (p, l). case CreateRouteTable c i p of
                         (r, p') \<Rightarrow> (r, (p', l @ [CallCreateRouteTable i r]))),
      CreateRoute = (\<lambda>i (p, l). case CreateRoute c i p of
                         (r, p') \<Rightarrow> (r, (p', l @ [CallCreateRoute i r]))),
      AssociateRouteTable = (\<lambda>rt sn (p, l). case AssociateRouteTable c rt sn p of
                         (r, p') \<Rightarrow> (r, (p', l @ [CallAssociateRouteTable rt sn r])))\<rparr>"

definition recording :: "'p Service \<Rightarrow> ('p \<times> call list) Service" where
  "recording s =
     \<lparr>EC2 = recordingEC2 (EC2 s),
      createTags = (\<lambda>cn rid lc tags (p, l). case createTags s cn rid lc tags p of
                         (r, p') \<Rightarrow> (r, (p', l @ [CallCreateTags cn rid lc tags r]))),
      addTagFilters = addTagFilters s,
      getNatGatewayForSubnet = getNatGatewayForSubnet s\<rparr>"

text \<open>What a list of recorded calls created and associated.\<close>

fun createdTable :: "call \<Rightarrow> string list" where
  "createdTable (CallCreateRouteTable vpcID (Inr out)) = [ec2_RouteTable.RouteTableId out]"
| "createdTable c = []"

fun association :: "call \<Rightarrow> (string \<times> string) list" where
  "association (CallAssociateRouteTable rt sn None) = [(rt, sn)]"
| "association c = []"

fun isCreation :: "call \<Rightarrow> bool" where
  "isCreation (CallCreateVpc i r) = True"
| "isCreation (CallCreateRouteTable i r) = True"
| "isCreation (CallCreateRoute i r) = True"
| "isCreation (CallAssociateRouteTable rt sn r) = True"
| "isCreation (CallCreateTags cn rid lc tags r) = True"
| "isCreation c = False"

definition createdTables :: "call list \<Rightarrow> string list" where
  "createdTables l = concat (map createdTable l)"

definition associations :: "call list \<Rightarrow> (string \<times> string) list" where
  "associations l = concat (map association l)"

section \<open>A provider double\<close>

text \<open>
  A concrete provider for the worked examples: it keeps the virtual networks (each with
  the clusters whose ownership tag it carries) and the route tables, numbers the
  resources it creates, refuses a route whose gateway it does not know, refuses a
  virtual network beyond its quota, and answers a describe call by identifier with an
  error when the identifier is unknown.
\<close>

record fake =
  fk_vpcs :: "(ec2_Vpc \<times> string list) list"
  fk_tables :: "ec2_RouteTable list"
  fk_badGateways :: "string list"
  fk_vpcQuota :: nat
  fk_serial :: nat

definition fakeMatches :: "ec2_Filter list \<Rightarrow> string list \<Rightarrow> bool" where
  "fakeMatches fs tags = list_all (\<lambda>f. Name f = ''tag:cluster'' \<and> list_ex (\<lambda>v. v \<in> set tags) (Values f)) fs"

definition fakeEC2 :: "fake EC2API" where
  "fakeEC2 =
     \<lparr>DescribeVpcs = (\<lambda>i p.
        if VpcIds i \<noteq> []
        then (if list_all (\<lambda>x. x \<in> set (map (ec2_Vpc.VpcId \<circ> fst) (fk_vpcs p))) (VpcIds i)
              then (Inr (filter (\<lambda>v. ec2_Vpc.VpcId v \<in> set (VpcIds i)) (map fst (fk_vpcs p))), p)
              else (Inl ''InvalidVpcID.NotFound'', p))
        else (Inr (map fst (filter (\<lambda>vt. fakeMatches (Filters i) (snd vt)) (fk_vpcs p))), p)),
      CreateVpc = (\<lambda>cidr p.
        if fk_vpcQuota p \<le> length (fk_vpcs p) then (Inl ''VpcLimitExceeded'', p)
        else (let v = \<lparr>ec2_Vpc.VpcId = ''vpc-'' @ replicate (fk_serial p) (CHR ''i''),
                       ec2_Vpc.CidrBlock = cidr\<rparr>
              in (Inr v, p\<lparr>fk_vpcs := fk_vpcs p @ [(v, [])], fk_serial := Suc (fk_serial p)\<rparr>))),
      WaitUntilVpcAvailable = (\<lambda>i p. (None, p)),
      DeleteVpc = (\<lambda>x p. (None, p\<lparr>fk_vpcs := filter (\<lambda>vt. ec2_Vpc.VpcId (fst vt) \<noteq> x) (fk_vpcs p)\<rparr>)),
      DescribeRouteTables = (\<lambda>fs p.
        (Inr (filter (\<lambda>t. list_all (\<lambda>f. Name f = ''vpc-id'' \<and> ec2_RouteTable.VpcId t \<in> set (Values f)) fs)
                (fk_tables p)), p)),
      CreateRouteTable = (\<lambda>vpcID p.
        (let t = \<lparr>ec2_RouteTable.RouteTableId = ''rtb-'' @ replicate (fk_serial p) (CHR ''i''),
                  ec2_RouteTable.VpcId = vpcID, Associations = [], Routes = []\<rparr>
         in (Inr t, p\<lparr>fk_tables := fk_tables p @ [t], fk_serial := Suc (fk_serial p)\<rparr>))),
      CreateRoute = (\<lambda>i p.
        if list_ex (\<lambda>g. GatewayId (Route i) = Some g \<or> NatGatewayId (Route i) = Some g)
             (fk_badGateways p)
        then (Some ''InvalidGatewayID.NotFound'', p)
        else (None, p\<lparr>fk_tables :=
                map (\<lambda>t. if ec2_RouteTable.RouteTableId t = CreateRouteInput.RouteTableId i
                          then t\<lparr>Routes := Routes t @ [Route i]\<rparr> else t) (fk_tables p)\<rparr>)),
      AssociateRouteTable = (\<lambda>rt sn p.
        (None, p\<lparr>fk_tables :=
                map (\<lambda>t. if ec2_RouteTable.RouteTableId t = rt
                          then t\<lparr>Associations := Associations t @ [\<lparr>SubnetId = Some sn\<rparr>]\<rparr>
                          else t) (fk_tables p)\<rparr>))\<rparr>"

definition fakeService :: "(string \<times> string) list \<Rightarrow> fake Service" where
  "fakeService natOf =
     \<lparr>EC2 = fakeEC2,
      createTags = (\<lambda>cn rid lc tags p.
        (None, p\<lparr>fk_vpcs := map (\<lambda>vt. if ec2_Vpc.VpcId (fst vt) = rid then (fst vt, snd vt @ [cn]) else vt)
                               (fk_vpcs p)\<rparr>)),
      addTagFilters = (\<lambda>cn fs. fs @ [\<lparr>Name = ''tag:cluster'', Values = [cn]\<rparr>]),
      getNatGatewayForSubnet = (\<lambda>subnets sn.
        case map_of natOf (Subnet.ID sn) of
          None \<Rightarrow> Inl (Errorf ''no nat gateways available for private subnet %q'' [Str (Subnet.ID sn)])
        | Some g \<Rightarrow> Inr g)\<rparr>"

definition fake0 :: fake where
  "fake0 = \<lparr>fk_vpcs = [], fk_tables = [], fk_badGateways = [], fk_vpcQuota = 5, fk_serial = 0\<rparr>"

subsection \<open>Worked inputs\<close>

definition exVpc :: VPC where
  "exVpc = \<lparr>VPC.ID = ''vpc-1'', VPC.CidrBlock = ''10.0.0.0/16''\<rparr>"

definition exPublic :: Subnet where
  "exPublic = \<lparr>Subnet.ID = ''subnet-a'', IsPublic = True, RouteTableID = None\<rparr>"

definition exPrivate :: Subnet where
  "exPrivate = \<lparr>Subnet.ID = ''subnet-b'', IsPublic = False, RouteTableID = None\<rparr>"

definition exNat :: "(string \<times> string) list" where
  "exNat = [(''subnet-b'', ''nat-1'')]"

definition exNet :: "Subnet list \<Rightarrow> string option \<Rightarrow> Network" where
  "exNet subnets igw = \<lparr>VPC = exVpc, Subnets = subnets, InternetGatewayID = igw\<rparr>"

definition exTable :: "string \<Rightarrow> string option list \<Rightarrow> ec2_RouteTable" where
  "exTable rt subnets =
     \<lparr>ec2_RouteTable.RouteTableId = rt, ec2_RouteTable.VpcId = ''vpc-1'',
      Associations = map (\<lambda>x. \<lparr>SubnetId = x\<rparr>) subnets, Routes = []\<rparr>"

definition exEc2Vpc :: "string \<Rightarrow> ec2_Vpc" where
  "exEc2Vpc x = \<lparr>ec2_Vpc.VpcId = x, ec2_Vpc.CidrBlock = ''10.0.0.0/16''\<rparr>"

section \<open>Facts about the recording client\<close>

lemmas fake_defs = fake0_def fakeService_def fakeEC2_def fakeMatches_def
  exVpc_def exPublic_def exPrivate_def exNat_def exNet_def exTable_def exEc2Vpc_def Let_def

lemmas method_defs = describeVPC_def createVPC_def reconcileVPC_def defaultVpcCidr_def
  describeVpcRouteTables_def describeVpcRouteTablesBySubnet_def
  getDefaultPrivateRoutes_def getDefaultPublicRoutes_def zeroRoute_def
  createRouteTableWithRoutes_def associateRouteTable_def subnetRoutes_def
  reconcileRouteTables_def Let_def

lemma recording_EC2 [simp]:
  "DescribeVpcs (EC2 (recording s)) i (p, l) =
     (case DescribeVpcs (EC2 s) i p of (r, p') \<Rightarrow> (r, (p', l @ [CallDescribeVpcs i r])))"
  "CreateVpc (EC2 (recording s)) c (p, l) =
     (case CreateVpc (EC2 s) c p of (r1, p') \<Rightarrow> (r1, (p', l @ [CallCreateVpc c r1])))"
  "WaitUntilVpcAvailable (EC2 (recording s)) i (p, l) =
     (case WaitUntilVpcAvailable (EC2 s) i p of
        (r2, p') \<Rightarrow> (r2, (p', l @ [CallWaitUntilVpcAvailable i r2])))"
  "DeleteVpc (EC2 (recording s)) c (p, l) =
     (case DeleteVpc (EC2 s) c p of (r2, p') \<Rightarrow> (r2, (p', l @ [CallDeleteVpc c r2])))"
  "DescribeRouteTables (EC2 (recording s)) fs (p, l) =
     (case DescribeRouteTables (EC2 s) fs p of
        (r3, p') \<Rightarrow> (r3, (p', l @ [CallDescribeRouteTables fs r3])))"
  "CreateRouteTable (EC2 (recording s)) c (p, l) =
     (case CreateRouteTable (EC2 s) c p of
        (r4, p') \<Rightarrow> (r4, (p', l @ [CallCreateRouteTable c r4])))"
  "CreateRoute (EC2 (recording s)) ci (p, l) =
     (case CreateRoute (EC2 s) ci p of (r2, p') \<Rightarrow> (r2, (p', l @ [CallCreateRoute ci r2])))"
  "AssociateRouteTable (EC2 (recording s)) rt sn (p, l) =
     (case AssociateRouteTable (EC2 s) rt sn p of
        (r2, p') \<Rightarrow> (r2, (p', l @ [CallAssociateRouteTable rt sn r2])))"
  by (simp_all add: recording_def recordingEC2_def)

lemma recording_Service [simp]:
  "createTags (recording s) cn rid lc tags (p, l) =
     (case createTags s cn rid lc tags p of
        (r, p') \<Rightarrow> (r, (p', l @ [CallCreateTags cn rid lc tags r])))"
  "addTagFilters (recording s) = addTagFilters s"
  "getNatGatewayForSubnet (recording s) = getNatGatewayForSubnet s"
  by (simp_all add: recording_def)

lemma createdTables_simps [simp]:
  "createdTables [] = []"
  "createdTables (c # l) = createdTable c @ createdTables l"
  "createdTables (l @ l') = createdTables l @ createdTables l'"
  by (simp_all add: createdTables_def)

lemma associations_simps [simp]:
  "associations [] = []"
  "associations (c # l) = association c @ associations l"
  "associations (l @ l') = associations l @ associations l'"
  by (simp_all add: associations_def)

lemma subnetRoutes_recording [simp]:
  "subnetRoutes (recording s) net subnets sn = subnetRoutes s net subnets sn"
  by (simp add: subnetRoutes_def)

section \<open>The recording client changes no result\<close>

text \<open>
  Every method returns, on \<open>recording s\<close>, the result and the provider state it returns
  on \<open>s\<close>; the recorded calls are carried along and never read.
\<close>

lemma describeVPC_unrecorded:
  "map_prod id fst (describeVPC (recording s) clusterName vpcID (p, l)) =
     describeVPC s clusterName vpcID p"
  by (simp add: describeVPC_def Let_def split: prod.splits sum.splits)

lemma createVPC_unrecorded:
  "map_prod id (map_prod id fst) (createVPC (recording s) clusterName v (p, l)) =
     createVPC s clusterName v p"
  by (simp add: createVPC_def Let_def split: prod.splits sum.splits option.splits)

lemma reconcileVPC_unrecorded:
  "map_prod id (map_prod id fst) (reconcileVPC (recording s) clusterName v (p, l)) =
     reconcileVPC s clusterName v p"
proof -
  obtain r p1 l1 where d: "describeVPC (recording s) clusterName (VPC.ID v) (p, l) = (r, (p1, l1))"
    by (metis prod.exhaust)
  with describeVPC_unrecorded[of s clusterName "VPC.ID v" p l]
  have d': "describeVPC s clusterName (VPC.ID v) p = (r, p1)" by simp
  obtain r2 v2 p2 l2 where c: "createVPC (recording s) clusterName v (p1, l1) = (r2, v2, (p2, l2))"
    by (metis prod.exhaust)
  with createVPC_unrecorded[of s clusterName v p1 l1]
  have c': "createVPC s clusterName v p1 = (r2, v2, p2)" by simp
  from d d' c c' show ?thesis
    by (simp add: reconcileVPC_def split: sum.splits)
qed

lemma createRoutes_unrecorded:
  "map_prod id fst (createRoutes (recording s) out routes (p, l)) = createRoutes s out routes p"
  by (induction routes arbitrary: p l) (auto split: prod.splits option.splits)

lemma createRouteTableWithRoutes_unrecorded:
  "map_prod id fst (createRouteTableWithRoutes (recording s) vpc routes (p, l)) =
     createRouteTableWithRoutes s vpc routes p"
proof -
  obtain r1 p1 where c: "CreateRouteTable (EC2 s) (VPC.ID vpc) p = (r1, p1)"
    by (metis prod.exhaust)
  show ?thesis
  proof (cases r1)
    case (Inl e)
    with c show ?thesis by (simp add: createRouteTableWithRoutes_def)
  next
    case (Inr out)
    let ?l = "l @ [CallCreateRouteTable (VPC.ID vpc) (Inr out)]"
    obtain r2 p2 l2 where cr: "createRoutes (recording s) out routes (p1, ?l) = (r2, (p2, l2))"
      by (metis prod.exhaust)
    with createRoutes_unrecorded[of s out routes p1 ?l]
    have "createRoutes s out routes p1 = (r2, p2)" by simp
    with c Inr cr show ?thesis
      by (simp add: createRouteTableWithRoutes_def split: option.splits)
  qed
qed

lemma associateRouteTable_unrecorded:
  "map_prod id fst (associateRouteTable (recording s) rt sid (p, l)) =
     associateRouteTable s rt sid p"
  by (simp add: associateRouteTable_def split: prod.splits option.splits)

lemma describeBySubnet_unrecorded:
  "map_prod id fst (describeVpcRouteTablesBySubnet (recording s) vpcID (p, l)) =
     describeVpcRouteTablesBySubnet s vpcID p"
  by (simp add: describeVpcRouteTablesBySubnet_def describeVpcRouteTables_def
        split: prod.splits sum.splits)

lemma subnetsLoop_unrecorded:
  "map_prod id (map_prod id fst) (subnetsLoop (recording s) m net pre rest (p, l)) =
     subnetsLoop s m net pre rest p"
proof (induction rest arbitrary: pre p l)
  case Nil
  then show ?case by simp
next
  case (Cons sn rest)
  show ?case
  proof (cases "m (Subnet.ID sn)")
    case (Some t)
    with Cons.IH show ?thesis by simp
  next
    case None
    show ?thesis
    proof (cases "subnetRoutes s net (pre @ sn # rest) sn")
      case (Inl e)
      with None show ?thesis by simp
    next
      case (Inr routes)
      obtain r1 p1 l1 where c:
        "createRouteTableWithRoutes (recording s) (VPC net) routes (p, l) = (r1, (p1, l1))"
        by (metis prod.exhaust)
      with createRouteTableWithRoutes_unrecorded[of s "VPC net" routes p l]
      have c': "createRouteTableWithRoutes s (VPC net) routes p = (r1, p1)" by simp
      show ?thesis
      proof (cases r1)
        case (Inl e)
        with None Inr c c' show ?thesis by simp
      next
        case rt: (Inr rt)
        obtain r2 p2 l2 where a:
          "associateRouteTable (recording s) rt (Subnet.ID sn) (p1, l1) = (r2, (p2, l2))"
          by (metis prod.exhaust)
        with associateRouteTable_unrecorded[of s rt "Subnet.ID sn" p1 l1]
        have a': "associateRouteTable s rt (Subnet.ID sn) p1 = (r2, p2)" by simp
        from None Inr c c' rt a a' Cons.IH show ?thesis
          by (cases r2) simp_all
      qed
    qed
  qed
qed

lemma reconcileRouteTables_unrecorded:
  "map_prod id (map_prod id fst) (reconcileRouteTables (recording s) net (p, l)) =
     reconcileRouteTables s net p"
proof -
  obtain d p1 l1 where d:
    "describeVpcRouteTablesBySubnet (recording s) (VPC.ID (VPC net)) (p, l) = (d, (p1, l1))"
    by (metis prod.exhaust)
  with describeBySubnet_unrecorded[of s "VPC.ID (VPC net)" p l]
  have d': "describeVpcRouteTablesBySubnet s (VPC.ID (VPC net)) p = (d, p1)" by simp
  show ?thesis
  proof (cases d)
    case (Inl e)
    with d d' show ?thesis by (simp add: reconcileRouteTables_def)
  next
    case (Inr m)
    obtain r outs p2 l2 where lp:
      "subnetsLoop (recording s) m net [] (Subnets net) (p1, l1) = (r, outs, (p2, l2))"
      by (metis prod.exhaust)
    with subnetsLoop_unrecorded[of s m net "[]" "Subnets net" p1 l1]
    have "subnetsLoop s m net [] (Subnets net) p1 = (r, outs, p2)" by simp
    with d d' Inr lp show ?thesis by (simp add: reconcileRouteTables_def)
  qed
qed

section \<open>vpc.go: the locator and the VPC reconciler\<close>

text \<open>
  Claim C3. For every cluster name and identifier, describeVPC issues one describe
  call, by the identifier when it is non-empty and by the cluster's tag filter
  otherwise. When the call succeeds the result follows the number of matches: none
  gives a NotFound error, exactly one gives that resource's identifier and address
  block, more than one gives a Conflict error that carries the candidates; and on a
  Conflict reconcileVPC returns that error with the caller's struct untouched and no
  call issued beyond the describe call, so nothing is created.
\<close>

theorem describeVPC_by_match_count:
  assumes "DescribeVpcs (EC2 s)
             (if vpcID = [] then \<lparr>VpcIds = [], Filters = addTagFilters s clusterName []\<rparr>
              else \<lparr>VpcIds = [vpcID], Filters = []\<rparr>) p = (Inr out, p')"
  shows "\<exists>r. describeVPC (recording s) clusterName vpcID (p, l) =
           (r, (p', l @ [CallDescribeVpcs
                          (if vpcID = [] then \<lparr>VpcIds = [], Filters = addTagFilters s clusterName []\<rparr>
                           else \<lparr>VpcIds = [vpcID], Filters = []\<rparr>) (Inr out)])) \<and>
         (out = [] \<longrightarrow> r = Inl (NewNotFound (Errorf ''could not find vpc %q'' [Str vpcID]))) \<and>
         (\<forall>x. out = [x] \<longrightarrow>
            r = Inr \<lparr>VPC.ID = ec2_Vpc.VpcId x, VPC.CidrBlock = ec2_Vpc.CidrBlock x\<rparr>) \<and>
         (1 < length out \<longrightarrow>
            r = Inl (NewConflict (Errorf
                  ''found more than one vpc with supplied filters. Please clean up extra VPCs: %s''
                  [VpcsOut out])) \<and>
            (\<forall>v. VPC.ID v = vpcID \<longrightarrow>
               reconcileVPC (recording s) clusterName v (p, l) =
                 (Some (NewConflict (Errorf
                  ''found more than one vpc with supplied filters. Please clean up extra VPCs: %s''
                  [VpcsOut out])), v,
                  (p', l @ [CallDescribeVpcs
                          (if vpcID = [] then \<lparr>VpcIds = [], Filters = addTagFilters s clusterName []\<rparr>
                           else \<lparr>VpcIds = [vpcID], Filters = []\<rparr>) (Inr out)]))))"
  using assms by (cases out) (auto simp: describeVPC_def reconcileVPC_def Let_def)

theorem describeVPC_by_match_count_witness:
  "describeVPC (recording (fakeService [])) ''c'' [] (fake0, []) =
     (Inl (NewNotFound (Errorf ''could not find vpc %q'' [Str []])),
      (fake0, [CallDescribeVpcs
                 \<lparr>VpcIds = [], Filters = [\<lparr>Name = ''tag:cluster'', Values = [''c'']\<rparr>]\<rparr> (Inr [])])) \<and>
   describeVPC (recording (fakeService [])) ''c'' ''vpc-1''
       (fake0\<lparr>fk_vpcs := [(exEc2Vpc ''vpc-1'', [])]\<rparr>, []) =
     (Inr \<lparr>VPC.ID = ''vpc-1'', VPC.CidrBlock = ''10.0.0.0/16''\<rparr>,
      (fake0\<lparr>fk_vpcs := [(exEc2Vpc ''vpc-1'', [])]\<rparr>,
       [CallDescribeVpcs \<lparr>VpcIds = [''vpc-1''], Filters = []\<rparr> (Inr [exEc2Vpc ''vpc-1''])])) \<and>
   reconcileVPC (recording (fakeService [])) ''c'' \<lparr>VPC.ID = [], VPC.CidrBlock = []\<rparr>
       (fake0\<lparr>fk_vpcs := [(exEc2Vpc ''vpc-1'', [''c'']), (exEc2Vpc ''vpc-2'', [''c''])]\<rparr>, []) =
     (Some (NewConflict (Errorf
        ''found more than one vpc with supplied filters. Please clean up extra VPCs: %s''
        [VpcsOut [exEc2Vpc ''vpc-1'', exEc2Vpc ''vpc-2'']])),
      \<lparr>VPC.ID = [], VPC.CidrBlock = []\<rparr>,
      (fake0\<lparr>fk_vpcs := [(exEc2Vpc ''vpc-1'', [''c'']), (exEc2Vpc ''vpc-2'', [''c''])]\<rparr>,
       [CallDescribeVpcs
          \<lparr>VpcIds = [], Filters = [\<lparr>Name = ''tag:cluster'', Values = [''c'']\<rparr>]\<rparr>
          (Inr [exEc2Vpc ''vpc-1'', exEc2Vpc ''vpc-2''])]))"
proof -
  have none: "DescribeVpcs (EC2 (fakeService []))
      (if ([]::string) = [] then \<lparr>VpcIds = [], Filters = addTagFilters (fakeService []) ''c'' []\<rparr>
       else \<lparr>VpcIds = [[]], Filters = []\<rparr>) fake0 = (Inr [], fake0)"
    by (simp add: fake_defs)
  have one: "DescribeVpcs (EC2 (fakeService []))
      (if ''vpc-1'' = [] then \<lparr>VpcIds = [], Filters = addTagFilters (fakeService []) ''c'' []\<rparr>
       else \<lparr>VpcIds = [''vpc-1''], Filters = []\<rparr>) (fake0\<lparr>fk_vpcs := [(exEc2Vpc ''vpc-1'', [])]\<rparr>)
      = (Inr [exEc2Vpc ''vpc-1''], fake0\<lparr>fk_vpcs := [(exEc2Vpc ''vpc-1'', [])]\<rparr>)"
    by (simp add: fake_defs)
  have two: "DescribeVpcs (EC2 (fakeService []))
      (if ([]::string) = [] then \<lparr>VpcIds = [], Filters = addTagFilters (fakeService []) ''c'' []\<rparr>
       else \<lparr>VpcIds = [[]], Filters = []\<rparr>)
      (fake0\<lparr>fk_vpcs := [(exEc2Vpc ''vpc-1'', [''c'']), (exEc2Vpc ''vpc-2'', [''c''])]\<rparr>)
      = (Inr [exEc2Vpc ''vpc-1'', exEc2Vpc ''vpc-2''],
         fake0\<lparr>fk_vpcs := [(exEc2Vpc ''vpc-1'', [''c'']), (exEc2Vpc ''vpc-2'', [''c''])]\<rparr>)"
    by (simp add: fake_defs)
  from describeVPC_by_match_count[OF none, of "[]"]
       describeVPC_by_match_count[OF one, of "[]"]
       describeVPC_by_match_count[OF two, of "[]"]
  show ?thesis
    by (simp add: fake_defs)
qed

text \<open>
  Claim C5. When the locator finds no virtual network, reconcileVPC issues the create
  call with the desired address block, or with 10.0.0.0/16 when that is empty, then the
  wait for availability, then one tagging call for the cluster, and returns the
  identifier and address block of the created network; these four calls are all the
  calls of the pass. When the locator finds exactly one network it is adopted: the
  describe call is the only call, so no tagging call is issued.
\<close>

theorem reconcileVPC_create_or_adopt:
  "(DescribeVpcs (EC2 s)
      (if VPC.ID v = [] then \<lparr>VpcIds = [], Filters = addTagFilters s clusterName []\<rparr>
       else \<lparr>VpcIds = [VPC.ID v], Filters = []\<rparr>) p = (Inr [], p1) \<longrightarrow>
    CreateVpc (EC2 s) (if VPC.CidrBlock v = [] then ''10.0.0.0/16'' else VPC.CidrBlock v) p1
      = (Inr out, p2) \<longrightarrow>
    WaitUntilVpcAvailable (EC2 s) \<lparr>VpcIds = [ec2_Vpc.VpcId out], Filters = []\<rparr> p2 = (None, p3) \<longrightarrow>
    createTags s clusterName (ec2_Vpc.VpcId out) ResourceLifecycleOwned [] p3 = (None, p4) \<longrightarrow>
    reconcileVPC (recording s) clusterName v (p, l) =
      (None, \<lparr>VPC.ID = ec2_Vpc.VpcId out, VPC.CidrBlock = ec2_Vpc.CidrBlock out\<rparr>,
       (p4, l @ [CallDescribeVpcs
                   (if VPC.ID v = [] then \<lparr>VpcIds = [], Filters = addTagFilters s clusterName []\<rparr>
                    else \<lparr>VpcIds = [VPC.ID v], Filters = []\<rparr>) (Inr []),
                 CallCreateVpc (if VPC.CidrBlock v = [] then ''10.0.0.0/16'' else VPC.CidrBlock v)
                   (Inr out),
                 CallWaitUntilVpcAvailable \<lparr>VpcIds = [ec2_Vpc.VpcId out], Filters = []\<rparr> None,
                 CallCreateTags clusterName (ec2_Vpc.VpcId out) ResourceLifecycleOwned [] None])))
   \<and>
   (DescribeVpcs (EC2 s)
      (if VPC.ID v = [] then \<lparr>VpcIds = [], Filters = addTagFilters s clusterName []\<rparr>
       else \<lparr>VpcIds = [VPC.ID v], Filters = []\<rparr>) p = (Inr [x], p1) \<longrightarrow>
    reconcileVPC (recording s) clusterName v (p, l) =
      (None, \<lparr>VPC.ID = ec2_Vpc.VpcId x, VPC.CidrBlock = ec2_Vpc.CidrBlock x\<rparr>,
       (p1, l @ [CallDescribeVpcs
                   (if VPC.ID v = [] then \<lparr>VpcIds = [], Filters = addTagFilters s clusterName []\<rparr>
                    else \<lparr>VpcIds = [VPC.ID v], Filters = []\<rparr>) (Inr [x])])))"
  by (auto simp: reconcileVPC_def describeVPC_def createVPC_def Let_def defaultVpcCidr_def)

theorem reconcileVPC_create_or_adopt_witness:
  "reconcileVPC (recording (fakeService [])) ''c'' \<lparr>VPC.ID = [], VPC.CidrBlock = []\<rparr> (fake0, []) =
     (None, \<lparr>VPC.ID = ''vpc-'', VPC.CidrBlock = ''10.0.0.0/16''\<rparr>,
      (fake0\<lparr>fk_vpcs := [(exEc2Vpc ''vpc-'', [''c''])], fk_serial := Suc 0\<rparr>,
       [CallDescribeVpcs
          \<lparr>VpcIds = [], Filters = [\<lparr>Name = ''tag:cluster'', Values = [''c'']\<rparr>]\<rparr> (Inr []),
        CallCreateVpc ''10.0.0.0/16'' (Inr (exEc2Vpc ''vpc-'')),
        CallWaitUntilVpcAvailable \<lparr>VpcIds = [''vpc-''], Filters = []\<rparr> None,
        CallCreateTags ''c'' ''vpc-'' ResourceLifecycleOwned [] None])) \<and>
   reconcileVPC (recording (fakeService [])) ''c'' \<lparr>VPC.ID = [], VPC.CidrBlock = []\<rparr>
       (fake0\<lparr>fk_vpcs := [(exEc2Vpc ''vpc-'', [''c''])], fk_serial := Suc 0\<rparr>, []) =
     (None, \<lparr>VPC.ID = ''vpc-'', VPC.CidrBlock = ''10.0.0.0/16''\<rparr>,
      (fake0\<lparr>fk_vpcs := [(exEc2Vpc ''vpc-'', [''c''])], fk_serial := Suc 0\<rparr>,
       [CallDescribeVpcs
          \<lparr>VpcIds = [], Filters = [\<lparr>Name = ''tag:cluster'', Values = [''c'']\<rparr>]\<rparr>
          (Inr [exEc2Vpc ''vpc-''])]))"
proof -
  let ?s = "fakeService []"
  let ?v = "\<lparr>VPC.ID = [], VPC.CidrBlock = []\<rparr>"
  let ?p1 = "fake0\<lparr>fk_vpcs := [(exEc2Vpc ''vpc-'', [])], fk_serial := Suc 0\<rparr>"
  let ?p4 = "fake0\<lparr>fk_vpcs := [(exEc2Vpc ''vpc-'', [''c''])], fk_serial := Suc 0\<rparr>"
  have d: "DescribeVpcs (EC2 ?s)
      (if VPC.ID ?v = [] then \<lparr>VpcIds = [], Filters = addTagFilters ?s ''c'' []\<rparr>
       else \<lparr>VpcIds = [VPC.ID ?v], Filters = []\<rparr>) fake0 = (Inr [], fake0)"
    by (simp add: fake_defs)
  have c: "CreateVpc (EC2 ?s) (if VPC.CidrBlock ?v = [] then ''10.0.0.0/16'' else VPC.CidrBlock ?v) fake0
      = (Inr (exEc2Vpc ''vpc-''), ?p1)"
    by (simp add: fake_defs)
  have w: "WaitUntilVpcAvailable (EC2 ?s)
      \<lparr>VpcIds = [ec2_Vpc.VpcId (exEc2Vpc ''vpc-'')], Filters = []\<rparr> ?p1 = (None, ?p1)"
    by (simp add: fake_defs)
  have t: "createTags ?s ''c'' (ec2_Vpc.VpcId (exEc2Vpc ''vpc-'')) ResourceLifecycleOwned [] ?p1
      = (None, ?p4)"
    by (simp add: fake_defs)
  have a: "DescribeVpcs (EC2 ?s)
      (if VPC.ID ?v = [] then \<lparr>VpcIds = [], Filters = addTagFilters ?s ''c'' []\<rparr>
       else \<lparr>VpcIds = [VPC.ID ?v], Filters = []\<rparr>) ?p4 = (Inr [exEc2Vpc ''vpc-''], ?p4)"
    by (simp add: fake_defs)
  from reconcileVPC_create_or_adopt[where s = ?s and v = ?v and clusterName = "''c''" and p = fake0
         and ?p1.0 = fake0 and out = "exEc2Vpc ''vpc-''" and ?p2.0 = ?p1 and ?p3.0 = ?p1
         and ?p4.0 = ?p4 and l = "[]"]
       d c w t
  have first: "reconcileVPC (recording ?s) ''c'' ?v (fake0, []) =
      (None, \<lparr>VPC.ID = ec2_Vpc.VpcId (exEc2Vpc ''vpc-''),
               VPC.CidrBlock = ec2_Vpc.CidrBlock (exEc2Vpc ''vpc-'')\<rparr>,
       (?p4, [] @ [CallDescribeVpcs
                   (if VPC.ID ?v = [] then \<lparr>VpcIds = [], Filters = addTagFilters ?s ''c'' []\<rparr>
                    else \<lparr>VpcIds = [VPC.ID ?v], Filters = []\<rparr>) (Inr []),
                 CallCreateVpc (if VPC.CidrBlock ?v = [] then ''10.0.0.0/16'' else VPC.CidrBlock ?v)
                   (Inr (exEc2Vpc ''vpc-'')),
                 CallWaitUntilVpcAvailable \<lparr>VpcIds = [ec2_Vpc.VpcId (exEc2Vpc ''vpc-'')], Filters = []\<rparr> None,
                 CallCreateTags ''c'' (ec2_Vpc.VpcId (exEc2Vpc ''vpc-'')) ResourceLifecycleOwned [] None]))"
    by blast
  from reconcileVPC_create_or_adopt[where s = ?s and v = ?v and clusterName = "''c''" and p = ?p4
         and l = "[]" and x = "exEc2Vpc ''vpc-''" and ?p1.0 = ?p4] a
  have second: "reconcileVPC (recording ?s) ''c'' ?v (?p4, []) =
      (None, \<lparr>VPC.ID = ec2_Vpc.VpcId (exEc2Vpc ''vpc-''),
               VPC.CidrBlock = ec2_Vpc.CidrBlock (exEc2Vpc ''vpc-'')\<rparr>,
       (?p4, [] @ [CallDescribeVpcs
                   (if VPC.ID ?v = [] then \<lparr>VpcIds = [], Filters = addTagFilters ?s ''c'' []\<rparr>
                    else \<lparr>VpcIds = [VPC.ID ?v], Filters = []\<rparr>) (Inr [exEc2Vpc ''vpc-''])]))"
    by blast
  from first second show ?thesis
    by (simp add: fake_defs)
qed

text \<open>
  Claim C8. The claim asks that no provider failure is returned bare, in particular for
  the describe call of describeVPC. The theorem records what the source does there:
  describeVPC returns the provider's error as it is, with no description of the
  operation or the resource, and reconcileVPC passes it on unchanged; the describe call
  of describeVpcRouteTables, by contrast, is wrapped.
\<close>

theorem describeVPC_provider_error_bare:
  "(DescribeVpcs (EC2 s)
      (if VPC.ID v = [] then \<lparr>VpcIds = [], Filters = addTagFilters s clusterName []\<rparr>
       else \<lparr>VpcIds = [VPC.ID v], Filters = []\<rparr>) p = (Inl e, p') \<longrightarrow>
    describeVPC s clusterName (VPC.ID v) p = (Inl (AWSError e), p') \<and>
    reconcileVPC s clusterName v p = (Some (AWSError e), v, p')) \<and>
   (DescribeRouteTables (EC2 s) [\<lparr>Name = ''vpc-id'', Values = [vpcID]\<rparr>] p = (Inl e, p') \<longrightarrow>
    describeVpcRouteTables s vpcID p =
      (Inl (Wrapf (AWSError e) ''failed to describe route tables in vpc %q'' [Str vpcID]), p'))"
  by (simp add: reconcileVPC_def describeVPC_def describeVpcRouteTables_def Let_def)

theorem describeVPC_provider_error_bare_witness:
  "reconcileVPC (fakeService []) ''c'' \<lparr>VPC.ID = ''vpc-gone'', VPC.CidrBlock = []\<rparr> fake0 =
     (Some (AWSError ''InvalidVpcID.NotFound''),
      \<lparr>VPC.ID = ''vpc-gone'', VPC.CidrBlock = []\<rparr>, fake0) \<and>
   describeVpcRouteTables
       (fakeService []\<lparr>EC2 := fakeEC2\<lparr>DescribeRouteTables := \<lambda>fs p. (Inl ''RequestLimitExceeded'', p)\<rparr>\<rparr>)
       ''vpc-1'' fake0 =
     (Inl (Wrapf (AWSError ''RequestLimitExceeded'') ''failed to describe route tables in vpc %q''
             [Str ''vpc-1'']), fake0)"
proof -
  let ?v = "\<lparr>VPC.ID = ''vpc-gone'', VPC.CidrBlock = []\<rparr>"
  let ?s2 = "fakeService []\<lparr>EC2 := fakeEC2\<lparr>DescribeRouteTables := \<lambda>fs p. (Inl ''RequestLimitExceeded'', p)\<rparr>\<rparr>"
  have d: "DescribeVpcs (EC2 (fakeService []))
      (if VPC.ID ?v = [] then \<lparr>VpcIds = [], Filters = addTagFilters (fakeService []) ''c'' []\<rparr>
       else \<lparr>VpcIds = [VPC.ID ?v], Filters = []\<rparr>) fake0 = (Inl ''InvalidVpcID.NotFound'', fake0)"
    by (simp add: fake_defs)
  have r: "DescribeRouteTables (EC2 ?s2) [\<lparr>Name = ''vpc-id'', Values = [''vpc-1'']\<rparr>] fake0
      = (Inl ''RequestLimitExceeded'', fake0)"
    by (simp add: fake_defs)
  from describeVPC_provider_error_bare[where s = "fakeService []" and v = ?v and clusterName = "''c''"
         and p = fake0 and e = "''InvalidVpcID.NotFound''" and p' = fake0] d
       describeVPC_provider_error_bare[where s = ?s2 and p = fake0 and e = "''RequestLimitExceeded''"
         and p' = fake0 and vpcID = "''vpc-1''"] r
  show ?thesis by blast
qed

text \<open>
  Claim C9. For a desired VPC whose CidrBlock is empty, createVPC leaves the caller's
  struct with CidrBlock 10.0.0.0/16 whatever the outcome of the call, and the create
  call it issues carries that value: when the create call fails, createVPC returns the
  wrapped error together with the changed struct. When createVPC fails inside
  reconcileVPC, whichever of its calls failed, reconcileVPC returns that error and the
  caller's struct keeps the default.
\<close>

theorem createVPC_defaults_callers_struct:
  assumes "VPC.CidrBlock v = []"
  shows "fst (snd (createVPC s clusterName v p)) = v\<lparr>VPC.CidrBlock := ''10.0.0.0/16''\<rparr> \<and>
         (\<forall>e p1. CreateVpc (EC2 s) ''10.0.0.0/16'' p = (Inl e, p1) \<longrightarrow>
            createVPC s clusterName v p =
              (Inl (Wrapf (AWSError e) ''failed to create vpc'' []),
               v\<lparr>VPC.CidrBlock := ''10.0.0.0/16''\<rparr>, p1)) \<and>
         (\<forall>err p1 e. describeVPC s clusterName (VPC.ID v) p = (Inl err, p1) \<longrightarrow> IsNotFound err \<longrightarrow>
            fst (createVPC s clusterName v p1) = Inl e \<longrightarrow>
            reconcileVPC s clusterName v p =
              (Some e, v\<lparr>VPC.CidrBlock := ''10.0.0.0/16''\<rparr>,
               snd (snd (createVPC s clusterName v p1))))"
  using assms
  by (auto simp: reconcileVPC_def createVPC_def Let_def defaultVpcCidr_def
           split: prod.splits sum.splits option.splits)

theorem createVPC_defaults_callers_struct_witness:
  "reconcileVPC (fakeService []) ''c'' \<lparr>VPC.ID = [], VPC.CidrBlock = []\<rparr> (fake0\<lparr>fk_vpcQuota := 0\<rparr>) =
     (Some (Wrapf (AWSError ''VpcLimitExceeded'') ''failed to create vpc'' []),
      \<lparr>VPC.ID = [], VPC.CidrBlock = ''10.0.0.0/16''\<rparr>, fake0\<lparr>fk_vpcQuota := 0\<rparr>)"
proof -
  let ?s = "fakeService []"
  let ?v = "\<lparr>VPC.ID = [], VPC.CidrBlock = []\<rparr>"
  let ?p = "fake0\<lparr>fk_vpcQuota := 0\<rparr>"
  have h: "VPC.CidrBlock ?v = []" by simp
  have c: "CreateVpc (EC2 ?s) ''10.0.0.0/16'' ?p = (Inl ''VpcLimitExceeded'', ?p)"
    by (simp add: fake_defs)
  have d: "describeVPC ?s ''c'' (VPC.ID ?v) ?p =
      (Inl (NewNotFound (Errorf ''could not find vpc %q'' [Str []])), ?p)"
    by (simp add: fake_defs describeVPC_def)
  from createVPC_defaults_callers_struct[OF h, of ?s "''c''" ?p] c
  have cv: "createVPC ?s ''c'' ?v ?p =
      (Inl (Wrapf (AWSError ''VpcLimitExceeded'') ''failed to create vpc'' []),
       ?v\<lparr>VPC.CidrBlock := ''10.0.0.0/16''\<rparr>, ?p)"
    by blast
  from createVPC_defaults_callers_struct[OF h, of ?s "''c''" ?p] d cv
  have "reconcileVPC ?s ''c'' ?v ?p =
      (Some (Wrapf (AWSError ''VpcLimitExceeded'') ''failed to create vpc'' []),
       ?v\<lparr>VPC.CidrBlock := ''10.0.0.0/16''\<rparr>, snd (snd (createVPC ?s ''c'' ?v ?p)))"
    by simp
  with cv show ?thesis by simp
qed

section \<open>routetables.go: the association map and the route policy\<close>

lemma associationsLoop_lookup:
  "associationsLoop res rt as sid =
     (if Some sid \<in> set (map SubnetId as) then Some rt else res sid)"
  by (induction as arbitrary: res) (auto split: option.splits)

lemma tablesLoop_lookup:
  "tablesLoop res rts sid =
     (case filter (\<lambda>rt. Some sid \<in> set (map SubnetId (Associations rt))) rts of
        [] \<Rightarrow> res sid
      | t # ts \<Rightarrow> Some (last (t # ts)))"
proof (induction rts arbitrary: res)
  case Nil
  then show ?case by simp
next
  case (Cons rt rts)
  show ?case
    by (cases "filter (\<lambda>rt. Some sid \<in> set (map SubnetId (Associations rt))) rts")
       (simp_all add: Cons.IH associationsLoop_lookup)
qed

text \<open>
  Claim C10. When the describe call succeeds, describeVpcRouteTablesBySubnet returns a
  map and no error. A subnet identifier is a key of the map exactly when some table
  lists it in an association; associations without a subnet identifier contribute no
  key; and a subnet listed by several tables is mapped to the last of them in the
  order of the provider's reply.
\<close>

theorem bySubnet_last_table_wins:
  assumes "describeVpcRouteTables s vpcID p = (Inr rts, p')"
  shows "\<exists>m. describeVpcRouteTablesBySubnet s vpcID p = (Inr m, p') \<and>
           (\<forall>sid. m sid =
              (case filter (\<lambda>rt. Some sid \<in> set (map SubnetId (Associations rt))) rts of
                 [] \<Rightarrow> None
               | t # ts \<Rightarrow> Some (last (t # ts))))"
  using assms by (simp add: describeVpcRouteTablesBySubnet_def tablesLoop_lookup)

theorem bySubnet_last_table_wins_witness:
  "\<exists>m. describeVpcRouteTablesBySubnet (fakeService []) ''vpc-1''
          (fake0\<lparr>fk_tables := [exTable ''rtb-1'' [None, Some ''subnet-a''],
                                 exTable ''rtb-2'' [Some ''subnet-a'']]\<rparr>) =
          (Inr m, fake0\<lparr>fk_tables := [exTable ''rtb-1'' [None, Some ''subnet-a''],
                                        exTable ''rtb-2'' [Some ''subnet-a'']]\<rparr>) \<and>
        m ''subnet-a'' = Some (exTable ''rtb-2'' [Some ''subnet-a'']) \<and>
        m ''subnet-b'' = None"
proof -
  let ?p = "fake0\<lparr>fk_tables := [exTable ''rtb-1'' [None, Some ''subnet-a''],
                                 exTable ''rtb-2'' [Some ''subnet-a'']]\<rparr>"
  have d: "describeVpcRouteTables (fakeService []) ''vpc-1'' ?p =
      (Inr [exTable ''rtb-1'' [None, Some ''subnet-a''], exTable ''rtb-2'' [Some ''subnet-a'']], ?p)"
    by (simp add: describeVpcRouteTables_def fake_defs)
  from bySubnet_last_table_wins[OF d] obtain m where
    m: "describeVpcRouteTablesBySubnet (fakeService []) ''vpc-1'' ?p = (Inr m, ?p)"
    and l: "\<And>sid. m sid =
              (case filter (\<lambda>rt. Some sid \<in> set (map SubnetId (Associations rt)))
                      [exTable ''rtb-1'' [None, Some ''subnet-a''], exTable ''rtb-2'' [Some ''subnet-a'']] of
                 [] \<Rightarrow> None
               | t # ts \<Rightarrow> Some (last (t # ts)))"
    by blast
  have "m ''subnet-a'' = Some (exTable ''rtb-2'' [Some ''subnet-a''])"
    by (simp add: l exTable_def)
  moreover have "m ''subnet-b'' = None"
    by (simp add: l exTable_def)
  ultimately show ?thesis using m by blast
qed

text \<open>
  Claim C4. The default routes of a public subnet are one route with destination
  0.0.0.0/0 and the internet gateway as its gateway, with no NAT gateway; those of a
  private subnet are one route with destination 0.0.0.0/0 and, as its NAT gateway, the
  gateway that getNatGatewayForSubnet resolves for the subnet among the subnet list,
  with no internet gateway. In both routes exactly one target field is set.
\<close>

theorem default_route_policy:
  "getDefaultPublicRoutes igw =
     [\<lparr>DestinationCidrBlock = Some ''0.0.0.0/0'', DestinationIpv6CidrBlock = None,
       EgressOnlyInternetGatewayId = None, GatewayId = Some igw, InstanceId = None,
       NatGatewayId = None, NetworkInterfaceId = None, VpcPeeringConnectionId = None\<rparr>] \<and>
   getDefaultPrivateRoutes natgw =
     [\<lparr>DestinationCidrBlock = Some ''0.0.0.0/0'', DestinationIpv6CidrBlock = None,
       EgressOnlyInternetGatewayId = None, GatewayId = None, InstanceId = None,
       NatGatewayId = Some natgw, NetworkInterfaceId = None, VpcPeeringConnectionId = None\<rparr>] \<and>
   (IsPublic sn \<longrightarrow> InternetGatewayID net = Some igw \<longrightarrow>
      subnetRoutes s net subnets sn = Inr (getDefaultPublicRoutes igw)) \<and>
   (\<not> IsPublic sn \<longrightarrow> getNatGatewayForSubnet s subnets sn = Inr natgw \<longrightarrow>
      subnetRoutes s net subnets sn = Inr (getDefaultPrivateRoutes natgw)) \<and>
   (\<forall>r \<in> set (getDefaultPublicRoutes igw) \<union> set (getDefaultPrivateRoutes natgw).
      length (filter (\<lambda>t. t \<noteq> None) (routeTargets r)) = 1)"
  by (simp add: getDefaultPublicRoutes_def getDefaultPrivateRoutes_def zeroRoute_def
        subnetRoutes_def routeTargets_def)

theorem default_route_policy_witness:
  "subnetRoutes (fakeService exNat) (exNet [exPublic, exPrivate] (Some ''igw-1''))
       [exPublic, exPrivate] exPublic =
     Inr [\<lparr>DestinationCidrBlock = Some ''0.0.0.0/0'', DestinationIpv6CidrBlock = None,
           EgressOnlyInternetGatewayId = None, GatewayId = Some ''igw-1'', InstanceId = None,
           NatGatewayId = None, NetworkInterfaceId = None, VpcPeeringConnectionId = None\<rparr>] \<and>
   subnetRoutes (fakeService exNat) (exNet [exPublic, exPrivate] (Some ''igw-1''))
       [exPublic, exPrivate] exPrivate =
     Inr [\<lparr>DestinationCidrBlock = Some ''0.0.0.0/0'', DestinationIpv6CidrBlock = None,
           EgressOnlyInternetGatewayId = None, GatewayId = None, InstanceId = None,
           NatGatewayId = Some ''nat-1'', NetworkInterfaceId = None, VpcPeeringConnectionId = None\<rparr>] \<and>
   map (\<lambda>r. length (filter (\<lambda>t. t \<noteq> None) (routeTargets r)))
       (getDefaultPublicRoutes ''igw-1'' @ getDefaultPrivateRoutes ''nat-1'') = [1, 1]"
proof -
  let ?s = "fakeService exNat"
  let ?net = "exNet [exPublic, exPrivate] (Some ''igw-1'')"
  have pub: "IsPublic exPublic" "InternetGatewayID ?net = Some ''igw-1''"
    by (simp_all add: fake_defs)
  have priv: "\<not> IsPublic exPrivate"
    "getNatGatewayForSubnet ?s [exPublic, exPrivate] exPrivate = Inr ''nat-1''"
    by (simp_all add: fake_defs)
  note a = default_route_policy[where sn = exPublic and net = ?net and igw = "''igw-1''"
      and natgw = "''nat-1''" and s = ?s and subnets = "[exPublic, exPrivate]"]
  note b = default_route_policy[where sn = exPrivate and net = ?net and igw = "''igw-1''"
      and natgw = "''nat-1''" and s = ?s and subnets = "[exPublic, exPrivate]"]
  from a pub have 1: "subnetRoutes ?s ?net [exPublic, exPrivate] exPublic =
      Inr (getDefaultPublicRoutes ''igw-1'')" by blast
  from b priv have 2: "subnetRoutes ?s ?net [exPublic, exPrivate] exPrivate =
      Inr (getDefaultPrivateRoutes ''nat-1'')" by blast
  from a have 3: "getDefaultPublicRoutes ''igw-1'' =
     [\<lparr>DestinationCidrBlock = Some ''0.0.0.0/0'', DestinationIpv6CidrBlock = None,
       EgressOnlyInternetGatewayId = None, GatewayId = Some ''igw-1'', InstanceId = None,
       NatGatewayId = None, NetworkInterfaceId = None, VpcPeeringConnectionId = None\<rparr>]"
    and 4: "getDefaultPrivateRoutes ''nat-1'' =
     [\<lparr>DestinationCidrBlock = Some ''0.0.0.0/0'', DestinationIpv6CidrBlock = None,
       EgressOnlyInternetGatewayId = None, GatewayId = None, InstanceId = None,
       NatGatewayId = Some ''nat-1'', NetworkInterfaceId = None, VpcPeeringConnectionId = None\<rparr>]"
    and 5: "\<forall>r \<in> set (getDefaultPublicRoutes ''igw-1'') \<union> set (getDefaultPrivateRoutes ''nat-1'').
      length (filter (\<lambda>t. t \<noteq> None) (routeTargets r)) = 1"
    by blast+
  from 5 have "map (\<lambda>r. length (filter (\<lambda>t. t \<noteq> None) (routeTargets r)))
       (getDefaultPublicRoutes ''igw-1'' @ getDefaultPrivateRoutes ''nat-1'') = [1, 1]"
    unfolding 3 4 by simp
  with 1 2 3 4 show ?thesis by simp
qed

section \<open>routetables.go: the reconciliation loop\<close>

lemma createRoutes_recorded:
  "createRoutes (recording s) out routes (p, l) = (r, (p', l')) \<Longrightarrow>
   \<exists>new. l' = l @ new \<and> createdTables new = [] \<and> associations new = []"
proof (induction routes arbitrary: p l)
  case Nil
  then show ?case by simp
next
  case (Cons route routes)
  let ?i = "\<lparr>CreateRouteInput.RouteTableId = ec2_RouteTable.RouteTableId out, Route = route\<rparr>"
  obtain r1 p1 where c: "CreateRoute (EC2 s) ?i p = (r1, p1)"
    by (cases "CreateRoute (EC2 s) ?i p") auto
  show ?case
  proof (cases r1)
    case None
    with Cons.prems c
    have "createRoutes (recording s) out routes (p1, l @ [CallCreateRoute ?i None]) = (r, (p', l'))"
      by simp
    from Cons.IH[OF this] show ?thesis by auto
  next
    case (Some e)
    with Cons.prems c show ?thesis by auto
  qed
qed

lemma createRouteTableWithRoutes_recorded:
  assumes "createRouteTableWithRoutes (recording s) vpc routes (p, l) = (r, (p', l'))"
  shows "\<exists>new. l' = l @ new \<and> associations new = [] \<and> length (createdTables new) \<le> 1 \<and>
           (\<forall>rt. r = Inr rt \<longrightarrow> createdTables new = [RouteTable.ID rt])"
proof -
  obtain r1 p1 where c: "CreateRouteTable (EC2 s) (VPC.ID vpc) p = (r1, p1)"
    by (cases "CreateRouteTable (EC2 s) (VPC.ID vpc) p") auto
  show ?thesis
  proof (cases r1)
    case (Inl e)
    with assms c show ?thesis by (auto simp: createRouteTableWithRoutes_def)
  next
    case (Inr out)
    obtain r2 p2 l2 where cr: "createRoutes (recording s) out routes
        (p1, l @ [CallCreateRouteTable (VPC.ID vpc) (Inr out)]) = (r2, (p2, l2))"
      by (metis prod.exhaust)
    from createRoutes_recorded[OF cr] obtain new where
      n: "l2 = (l @ [CallCreateRouteTable (VPC.ID vpc) (Inr out)]) @ new"
         "createdTables new = []" "associations new = []" by blast
    from assms c Inr cr
    have "l' = l2 \<and> (\<forall>rt. r = Inr rt \<longrightarrow> RouteTable.ID rt = ec2_RouteTable.RouteTableId out)"
      by (cases r2) (auto simp: createRouteTableWithRoutes_def)
    with n show ?thesis by auto
  qed
qed

lemma associateRouteTable_recorded:
  assumes "associateRouteTable (recording s) rt sid (p, l) = (r, (p', l'))"
  shows "\<exists>a. l' = l @ [CallAssociateRouteTable (RouteTable.ID rt) sid a] \<and>
           (r = None \<longrightarrow> a = None) \<and> (a = None \<longrightarrow> r = None)"
  using assms
  by (auto simp: associateRouteTable_def split: prod.splits option.splits)

lemma describeBySubnet_recorded:
  "describeVpcRouteTablesBySubnet (recording s) vpcID (p, l) =
     (case DescribeRouteTables (EC2 s) [\<lparr>Name = ''vpc-id'', Values = [vpcID]\<rparr>] p of
        (r, p') \<Rightarrow>
          (fst (describeVpcRouteTablesBySubnet s vpcID p),
           (p', l @ [CallDescribeRouteTables [\<lparr>Name = ''vpc-id'', Values = [vpcID]\<rparr>] r])))"
  by (simp add: describeVpcRouteTablesBySubnet_def describeVpcRouteTables_def
        split: prod.splits sum.splits)

lemma describeBySubnet_reply:
  "DescribeRouteTables (EC2 s) [\<lparr>Name = ''vpc-id'', Values = [vpcID]\<rparr>] p = (Inr rts, p') \<Longrightarrow>
   describeVpcRouteTablesBySubnet s vpcID p = (Inr (tablesLoop Map.empty rts), p')"
  by (simp add: describeVpcRouteTablesBySubnet_def describeVpcRouteTables_def)

text \<open>One iteration of the loop, by the path it takes.\<close>

lemma subnetsLoop_Cons_cases:
  assumes "subnetsLoop s m net pre (sn # rest) p = (r, outs, p')"
  obtains
    (skip) t where "m (Subnet.ID sn) = Some t"
      "subnetsLoop s m net (pre @ [sn]) rest p = (r, outs, p')"
  | (no_routes) e where "m (Subnet.ID sn) = None"
      "subnetRoutes s net (pre @ sn # rest) sn = Inl e"
      "r = Some e" "outs = pre @ sn # rest" "p' = p"
  | (create_failed) routes e where "m (Subnet.ID sn) = None"
      "subnetRoutes s net (pre @ sn # rest) sn = Inr routes"
      "createRouteTableWithRoutes s (VPC net) routes p = (Inl e, p')"
      "r = Some e" "outs = pre @ sn # rest"
  | (associate_failed) routes rt p1 e where "m (Subnet.ID sn) = None"
      "subnetRoutes s net (pre @ sn # rest) sn = Inr routes"
      "createRouteTableWithRoutes s (VPC net) routes p = (Inr rt, p1)"
      "associateRouteTable s rt (Subnet.ID sn) p1 = (Some e, p')"
      "r = Some e" "outs = pre @ sn # rest"
  | (associated) routes rt p1 p2 where "m (Subnet.ID sn) = None"
      "subnetRoutes s net (pre @ sn # rest) sn = Inr routes"
      "createRouteTableWithRoutes s (VPC net) routes p = (Inr rt, p1)"
      "associateRouteTable s rt (Subnet.ID sn) p1 = (None, p2)"
      "subnetsLoop s m net (pre @ [sn\<lparr>RouteTableID := Some (RouteTable.ID rt)\<rparr>]) rest p2
         = (r, outs, p')"
  using assms
  by (auto split: option.splits sum.splits prod.splits)

lemma subnetsLoop_all_associated:
  "\<forall>sn \<in> set rest. m (Subnet.ID sn) \<noteq> None \<Longrightarrow>
   subnetsLoop s m net pre rest p = (None, pre @ rest, p)"
  by (induction rest arbitrary: pre) auto

lemma subnetsLoop_ids:
  "subnetsLoop s m net pre rest p = (r, outs, p') \<Longrightarrow>
   map Subnet.ID outs = map Subnet.ID (pre @ rest)"
proof (induction rest arbitrary: pre p)
  case Nil
  then show ?case by simp
next
  case (Cons sn rest)
  from Cons.prems show ?case
  proof (cases rule: subnetsLoop_Cons_cases)
    case (skip t)
    from Cons.IH[OF skip(2)] show ?thesis by simp
  next
    case (associated routes rt p1 p2)
    from Cons.IH[OF associated(5)] show ?thesis by simp
  qed simp_all
qed

lemma subnetsLoop_public_without_gateway:
  assumes "InternetGatewayID net = None"
    and "sn \<in> set rest" "IsPublic sn" "m (Subnet.ID sn) = None"
  shows "fst (subnetsLoop s m net pre rest p) \<noteq> None"
  using assms(2-)
proof (induction rest arbitrary: pre p)
  case Nil
  then show ?case by simp
next
  case (Cons x rest)
  obtain r outs p' where run: "subnetsLoop s m net pre (x # rest) p = (r, outs, p')"
    by (metis prod.exhaust)
  from run have "r \<noteq> None"
  proof (cases rule: subnetsLoop_Cons_cases)
    case (skip t)
    with Cons.prems have "sn \<in> set rest" by auto
    from Cons.IH[OF this Cons.prems(2,3), of "pre @ [x]" p] skip(2) show ?thesis by simp
  next
    case (associated routes rt p1 p2)
    have "sn \<in> set rest"
    proof (rule ccontr)
      assume "sn \<notin> set rest"
      with Cons.prems have "x = sn" by auto
      with associated(2) Cons.prems(2) assms(1) show False by (simp add: subnetRoutes_def)
    qed
    from Cons.IH[OF this Cons.prems(2,3), of "pre @ [x\<lparr>RouteTableID := Some (RouteTable.ID rt)\<rparr>]" p2]
      associated(5) show ?thesis by simp
  qed simp_all
  with run show ?case by simp
qed

text \<open>
  Claim C7. With no internet gateway identifier on the network, the loop that reaches
  a public subnet without an associated route table returns the precondition error at
  once, with the subnets, the provider state and the recorded calls exactly as they
  were, so that no call at all is issued for that subnet. Consequently a pass over a
  network that contains such a subnet always ends with an error.
\<close>

theorem public_subnet_without_gateway_fails:
  assumes "InternetGatewayID net = None" and "IsPublic sn"
  shows "(m (Subnet.ID sn) = None \<longrightarrow>
            subnetsLoop (recording s) m net pre (sn # rest) P =
              (Some (Errorf ''failed to create routing tables: internet gateway for %q is nil''
                       [Str (VPC.ID (VPC net))]), pre @ sn # rest, P)) \<and>
         (sn \<in> set (Subnets net) \<longrightarrow>
            (\<forall>m' q. describeVpcRouteTablesBySubnet s (VPC.ID (VPC net)) p = (Inr m', q) \<longrightarrow>
                     m' (Subnet.ID sn) = None) \<longrightarrow>
            fst (reconcileRouteTables s net p) \<noteq> None)"
proof (intro conjI impI)
  assume "m (Subnet.ID sn) = None"
  with assms show "subnetsLoop (recording s) m net pre (sn # rest) P =
      (Some (Errorf ''failed to create routing tables: internet gateway for %q is nil''
               [Str (VPC.ID (VPC net))]), pre @ sn # rest, P)"
    by (simp add: subnetRoutes_def)
next
  assume mem: "sn \<in> set (Subnets net)"
    and un: "\<forall>m' q. describeVpcRouteTablesBySubnet s (VPC.ID (VPC net)) p = (Inr m', q) \<longrightarrow>
                     m' (Subnet.ID sn) = None"
  obtain d q where d: "describeVpcRouteTablesBySubnet s (VPC.ID (VPC net)) p = (d, q)"
    by (metis prod.exhaust)
  show "fst (reconcileRouteTables s net p) \<noteq> None"
  proof (cases d)
    case (Inl e)
    with d show ?thesis by (simp add: reconcileRouteTables_def)
  next
    case (Inr m')
    with d un have "m' (Subnet.ID sn) = None" by simp
    from subnetsLoop_public_without_gateway[where m = m' and s = s and pre = "[]" and p = q,
        OF assms(1) mem assms(2) this]
    show ?thesis using d Inr by (auto simp: reconcileRouteTables_def split: prod.splits)
  qed
qed

theorem public_subnet_without_gateway_fails_witness:
  "subnetsLoop (recording (fakeService exNat)) Map.empty (exNet [exPublic, exPrivate] None)
       [] [exPublic, exPrivate] (fake0, []) =
     (Some (Errorf ''failed to create routing tables: internet gateway for %q is nil''
              [Str ''vpc-1'']), [exPublic, exPrivate], (fake0, [])) \<and>
   (\<exists>net' p' l'. reconcileRouteTables (recording (fakeService exNat))
        (exNet [exPrivate, exPublic] None) (fake0, []) =
        (Some (Errorf ''failed to create routing tables: internet gateway for %q is nil''
                 [Str ''vpc-1'']), net', (p', l')) \<and>
      map RouteTableID (Subnets net') = [Some ''rtb-'', None] \<and>
      createdTables l' = [''rtb-''] \<and> associations l' = [(''rtb-'', ''subnet-b'')])"
proof -
  let ?s = "fakeService exNat"
  let ?net = "exNet [exPrivate, exPublic] None"
  let ?net2 = "exNet [exPublic, exPrivate] None"
  have g: "InternetGatewayID ?net = None" and g2: "InternetGatewayID ?net2 = None"
    and pub: "IsPublic exPublic"
    and mem: "exPublic \<in> set (Subnets ?net)"
    by (simp_all add: fake_defs)
  have un: "\<forall>m' q. describeVpcRouteTablesBySubnet (recording ?s) (VPC.ID (VPC ?net)) (fake0, []) = (Inr m', q) \<longrightarrow>
                     m' (Subnet.ID exPublic) = None"
    by (auto simp: describeBySubnet_recorded describeVpcRouteTablesBySubnet_def
          describeVpcRouteTables_def fake_defs)
  from public_subnet_without_gateway_fails[OF g2 pub, where m = Map.empty and s = ?s
      and pre = "[]" and rest = "[exPrivate]" and P = "(fake0, [])"]
  have first: "subnetsLoop (recording ?s) Map.empty ?net2 [] [exPublic, exPrivate] (fake0, []) =
     (Some (Errorf ''failed to create routing tables: internet gateway for %q is nil''
              [Str (VPC.ID (VPC ?net2))]), [] @ [exPublic, exPrivate], (fake0, []))"
    by simp
  from public_subnet_without_gateway_fails[OF g pub, where s = "recording ?s" and p = "(fake0, [])"]
    mem un
  have "fst (reconcileRouteTables (recording ?s) ?net (fake0, [])) \<noteq> None"
    by blast
  then have "\<exists>net' p' l'. reconcileRouteTables (recording ?s) ?net (fake0, []) =
        (Some (Errorf ''failed to create routing tables: internet gateway for %q is nil''
                 [Str ''vpc-1'']), net', (p', l')) \<and>
      map RouteTableID (Subnets net') = [Some ''rtb-'', None] \<and>
      createdTables l' = [''rtb-''] \<and> associations l' = [(''rtb-'', ''subnet-b'')]"
    by (simp add: method_defs fake_defs)
  with first show ?thesis
    by (simp add: exNet_def exVpc_def)
qed




lemma subnetsLoop_recorded_ok:
  "subnetsLoop (recording s) m net pre rest (p, l) = (None, outs, (p', l')) \<Longrightarrow>
   \<exists>new rest'. outs = pre @ rest' \<and> l' = l @ new \<and>
     list_all2 (\<lambda>sn sn'. case m (Subnet.ID sn) of
                   Some t \<Rightarrow> sn' = sn
                 | None \<Rightarrow> \<exists>rt. sn' = sn\<lparr>RouteTableID := Some rt\<rparr>) rest rest' \<and>
     map (\<lambda>a. (Some (fst a), snd a)) (associations new) =
       map (\<lambda>sn'. (RouteTableID sn', Subnet.ID sn'))
         (filter (\<lambda>sn'. m (Subnet.ID sn') = None) rest') \<and>
     createdTables new = map fst (associations new)"
proof (induction rest arbitrary: pre p l)
  case Nil
  then show ?case by simp
next
  case (Cons sn rest)
  obtain P P' where P: "P = (p, l)" and P': "P' = (p', l')" by simp
  from Cons.prems have "subnetsLoop (recording s) m net pre (sn # rest) P = (None, outs, P')"
    by (simp add: P P')
  then show ?case
  proof (cases rule: subnetsLoop_Cons_cases)
    case (skip t)
    from Cons.IH[OF skip(2)[unfolded P P']] obtain new rest' where
      "outs = (pre @ [sn]) @ rest'" "l' = l @ new"
      "list_all2 (\<lambda>sn sn'. case m (Subnet.ID sn) of
                   Some t \<Rightarrow> sn' = sn
                 | None \<Rightarrow> \<exists>rt. sn' = sn\<lparr>RouteTableID := Some rt\<rparr>) rest rest'"
      "map (\<lambda>a. (Some (fst a), snd a)) (associations new) =
       map (\<lambda>sn'. (RouteTableID sn', Subnet.ID sn'))
         (filter (\<lambda>sn'. m (Subnet.ID sn') = None) rest')"
      "createdTables new = map fst (associations new)" by blast
    with skip(1) show ?thesis
      by (intro exI[of _ new] exI[of _ "sn # rest'"]) simp
  next
    case (associated routes rt P1 P2)
    obtain p1 l1 where P1: "P1 = (p1, l1)" by (cases P1)
    obtain p2 l2 where P2: "P2 = (p2, l2)" by (cases P2)
    from createRouteTableWithRoutes_recorded[OF associated(3)[unfolded P P1]]
    obtain new1 where c: "l1 = l @ new1" "associations new1 = []"
      "createdTables new1 = [RouteTable.ID rt]" by blast
    from associateRouteTable_recorded[OF associated(4)[unfolded P1 P2]]
    have a: "l2 = l1 @ [CallAssociateRouteTable (RouteTable.ID rt) (Subnet.ID sn) None]"
      by auto
    from Cons.IH[OF associated(5)[unfolded P2 P']] obtain new rest' where ih:
      "outs = (pre @ [sn\<lparr>RouteTableID := Some (RouteTable.ID rt)\<rparr>]) @ rest'" "l' = l2 @ new"
      "list_all2 (\<lambda>sn sn'. case m (Subnet.ID sn) of
                   Some t \<Rightarrow> sn' = sn
                 | None \<Rightarrow> \<exists>rt. sn' = sn\<lparr>RouteTableID := Some rt\<rparr>) rest rest'"
      "map (\<lambda>a. (Some (fst a), snd a)) (associations new) =
       map (\<lambda>sn'. (RouteTableID sn', Subnet.ID sn'))
         (filter (\<lambda>sn'. m (Subnet.ID sn') = None) rest')"
      "createdTables new = map fst (associations new)" by blast
    show ?thesis
      apply (rule exI[of _ "new1 @
               [CallAssociateRouteTable (RouteTable.ID rt) (Subnet.ID sn) None] @ new"])
      apply (rule exI[of _ "sn\<lparr>RouteTableID := Some (RouteTable.ID rt)\<rparr> # rest'"])
      using ih c a associated(1) by auto
  qed simp_all
qed

lemma subnetsLoop_recorded_any:
  "subnetsLoop (recording s) m net pre rest (p, l) = (r, outs, (p', l')) \<Longrightarrow>
   \<exists>new. l' = l @ new \<and> (\<forall>a \<in> set (associations new). m (snd a) = None) \<and>
     length (createdTables new) \<le> length (filter (\<lambda>sn. m (Subnet.ID sn) = None) rest)"
proof (induction rest arbitrary: pre p l)
  case Nil
  then show ?case by simp
next
  case (Cons sn rest)
  obtain P P' where P: "P = (p, l)" and P': "P' = (p', l')" by simp
  from Cons.prems have "subnetsLoop (recording s) m net pre (sn # rest) P = (r, outs, P')"
    by (simp add: P P')
  then show ?case
  proof (cases rule: subnetsLoop_Cons_cases)
    case (skip t)
    from Cons.IH[OF skip(2)[unfolded P P']] skip(1) show ?thesis by auto
  next
    case (no_routes e)
    with P P' show ?thesis by simp
  next
    case (create_failed routes e)
    from createRouteTableWithRoutes_recorded[OF create_failed(3)[unfolded P P']] create_failed(1)
    show ?thesis by auto
  next
    case (associate_failed routes rt P1 e)
    obtain p1 l1 where P1: "P1 = (p1, l1)" by (cases P1)
    from createRouteTableWithRoutes_recorded[OF associate_failed(3)[unfolded P P1]]
    obtain new1 where c: "l1 = l @ new1" "associations new1 = []"
      "length (createdTables new1) \<le> 1" by blast
    from associateRouteTable_recorded[OF associate_failed(4)[unfolded P1 P']]
    obtain a where a: "l' = l1 @ [CallAssociateRouteTable (RouteTable.ID rt) (Subnet.ID sn) a]"
      "a \<noteq> None" by auto
    from c a associate_failed(1) show ?thesis by auto
  next
    case (associated routes rt P1 P2)
    obtain p1 l1 where P1: "P1 = (p1, l1)" by (cases P1)
    obtain p2 l2 where P2: "P2 = (p2, l2)" by (cases P2)
    from createRouteTableWithRoutes_recorded[OF associated(3)[unfolded P P1]]
    obtain new1 where c: "l1 = l @ new1" "associations new1 = []"
      "length (createdTables new1) \<le> 1" by blast
    from associateRouteTable_recorded[OF associated(4)[unfolded P1 P2]]
    have a: "l2 = l1 @ [CallAssociateRouteTable (RouteTable.ID rt) (Subnet.ID sn) None]"
      by auto
    from Cons.IH[OF associated(5)[unfolded P2 P']] obtain new where ih:
      "l' = l2 @ new" "\<forall>a \<in> set (associations new). m (snd a) = None"
      "length (createdTables new) \<le> length (filter (\<lambda>sn. m (Subnet.ID sn) = None) rest)"
      by blast
    show ?thesis
      apply (rule exI[of _ "new1 @
               [CallAssociateRouteTable (RouteTable.ID rt) (Subnet.ID sn) None] @ new"])
      using ih c a associated(1) by auto
  qed
qed

text \<open>
  Claim C1, as amended. When reconcileRouteTables returns without error, the network
  keeps its VPC and gateway, and the subnets keep their order. Every subnet that the
  association map does not hold ends the pass with RouteTableID set; every subnet that
  the map holds (the skip path) is left exactly as it was, so its RouteTableID is
  non-nil only if it was on entry. The tables created during the pass are, in order,
  the tables of the association calls of the pass, and these calls pair, in list order,
  each subnet the map does not hold with the table identifier recorded on it: each
  created table is associated once, with the subnet it was created for.
\<close>

theorem reconcileRouteTables_success:
  assumes "reconcileRouteTables (recording s) net (p, []) = (None, net', (p', l'))"
  shows "\<exists>m q. describeVpcRouteTablesBySubnet s (VPC.ID (VPC net)) p = (Inr m, q) \<and>
           VPC net' = VPC net \<and> InternetGatewayID net' = InternetGatewayID net \<and>
           list_all2 (\<lambda>sn sn'. case m (Subnet.ID sn) of
                         Some t \<Rightarrow> sn' = sn
                       | None \<Rightarrow> \<exists>rt. sn' = sn\<lparr>RouteTableID := Some rt\<rparr>)
             (Subnets net) (Subnets net') \<and>
           map (\<lambda>a. (Some (fst a), snd a)) (associations l') =
             map (\<lambda>sn'. (RouteTableID sn', Subnet.ID sn'))
               (filter (\<lambda>sn'. m (Subnet.ID sn') = None) (Subnets net')) \<and>
           createdTables l' = map fst (associations l')"
proof -
  let ?f = "[\<lparr>Name = ''vpc-id'', Values = [VPC.ID (VPC net)]\<rparr>]"
  obtain d q where d: "DescribeRouteTables (EC2 s) ?f p = (d, q)"
    by (metis prod.exhaust)
  obtain m where m: "describeVpcRouteTablesBySubnet s (VPC.ID (VPC net)) p = (Inr m, q)"
    and loop: "subnetsLoop (recording s) m net [] (Subnets net) (q, [CallDescribeRouteTables ?f d])
                 = (None, Subnets net', (p', l'))"
    and same: "VPC net' = VPC net" "InternetGatewayID net' = InternetGatewayID net"
    using assms d
    by (cases d)
       (auto simp: reconcileRouteTables_def describeBySubnet_recorded
          describeVpcRouteTablesBySubnet_def describeVpcRouteTables_def
          split: prod.splits)
  from subnetsLoop_recorded_ok[OF loop] obtain new rest' where
    r: "Subnets net' = [] @ rest'" "l' = [CallDescribeRouteTables ?f d] @ new"
      "list_all2 (\<lambda>sn sn'. case m (Subnet.ID sn) of
                   Some t \<Rightarrow> sn' = sn
                 | None \<Rightarrow> \<exists>rt. sn' = sn\<lparr>RouteTableID := Some rt\<rparr>) (Subnets net) rest'"
      "map (\<lambda>a. (Some (fst a), snd a)) (associations new) =
       map (\<lambda>sn'. (RouteTableID sn', Subnet.ID sn'))
         (filter (\<lambda>sn'. m (Subnet.ID sn') = None) rest')"
      "createdTables new = map fst (associations new)" by blast
  from r have "list_all2 (\<lambda>sn sn'. case m (Subnet.ID sn) of
                         Some t \<Rightarrow> sn' = sn
                       | None \<Rightarrow> \<exists>rt. sn' = sn\<lparr>RouteTableID := Some rt\<rparr>)
             (Subnets net) (Subnets net')"
    and "map (\<lambda>a. (Some (fst a), snd a)) (associations l') =
             map (\<lambda>sn'. (RouteTableID sn', Subnet.ID sn'))
               (filter (\<lambda>sn'. m (Subnet.ID sn') = None) (Subnets net'))"
    and "createdTables l' = map fst (associations l')"
    by simp_all
  with m same show ?thesis by blast
qed

theorem reconcileRouteTables_success_witness:
  "\<exists>net' p' l'.
     reconcileRouteTables (recording (fakeService exNat))
       (exNet [exPublic, exPrivate] (Some ''igw-1''))
       (fake0\<lparr>fk_tables := [exTable ''rtb-old'' [Some ''subnet-a'']]\<rparr>, []) =
       (None, net', (p', l')) \<and>
     map RouteTableID (Subnets net') = [None, Some ''rtb-''] \<and>
     associations l' = [(''rtb-'', ''subnet-b'')] \<and>
     createdTables l' = map fst (associations l')"
proof -
  obtain net' p' l' where
    run: "reconcileRouteTables (recording (fakeService exNat))
       (exNet [exPublic, exPrivate] (Some ''igw-1''))
       (fake0\<lparr>fk_tables := [exTable ''rtb-old'' [Some ''subnet-a'']]\<rparr>, []) =
       (None, net', (p', l'))"
    and vals: "map RouteTableID (Subnets net') = [None, Some ''rtb-'']"
      "associations l' = [(''rtb-'', ''subnet-b'')]"
    by (simp add: method_defs fake_defs)
  from reconcileRouteTables_success[OF run]
  have "createdTables l' = map fst (associations l')" by blast
  with run vals show ?thesis
    by (intro exI[of _ net'] exI[of _ p'] exI[of _ l']) simp
qed

text \<open>
  The claim as stated fails on the skip path: the provider already reports a table
  associated with the subnet, the pass returns without error, and the subnet's
  RouteTableID is still nil.
\<close>

theorem skip_path_leaves_RouteTableID_nil:
  "reconcileRouteTables (fakeService []) (exNet [exPublic] (Some ''igw-1''))
       (fake0\<lparr>fk_tables := [exTable ''rtb-old'' [Some ''subnet-a'']]\<rparr>) =
     (None, exNet [exPublic] (Some ''igw-1''),
      fake0\<lparr>fk_tables := [exTable ''rtb-old'' [Some ''subnet-a'']]\<rparr>) \<and>
   map RouteTableID (Subnets (exNet [exPublic] (Some ''igw-1''))) = [None]"
  by (simp add: method_defs fake_defs)

lemma reconcileRouteTables_frame:
  assumes "reconcileRouteTables s net p = (r, net', p')"
  shows "VPC net' = VPC net \<and> InternetGatewayID net' = InternetGatewayID net \<and>
         map Subnet.ID (Subnets net') = map Subnet.ID (Subnets net)"
proof -
  obtain d q where d: "describeVpcRouteTablesBySubnet s (VPC.ID (VPC net)) p = (d, q)"
    by (metis prod.exhaust)
  show ?thesis
  proof (cases d)
    case (Inl e)
    with assms d show ?thesis by (auto simp: reconcileRouteTables_def)
  next
    case (Inr m)
    obtain r1 outs q1 where l: "subnetsLoop s m net [] (Subnets net) q = (r1, outs, q1)"
      by (metis prod.exhaust)
    from subnetsLoop_ids[OF l] assms d Inr l show ?thesis
      by (auto simp: reconcileRouteTables_def)
  qed
qed

lemma reconcileRouteTables_all_associated:
  assumes "DescribeRouteTables (EC2 s) [\<lparr>Name = ''vpc-id'', Values = [VPC.ID (VPC net)]\<rparr>] p
             = (Inr rts, q)"
    and "\<forall>sn \<in> set (Subnets net). tablesLoop Map.empty rts (Subnet.ID sn) \<noteq> None"
  shows "reconcileRouteTables (recording s) net (p, l) =
           (None, net,
            (q, l @ [CallDescribeRouteTables
                       [\<lparr>Name = ''vpc-id'', Values = [VPC.ID (VPC net)]\<rparr>] (Inr rts)]))"
  using assms
  by (simp add: reconcileRouteTables_def describeBySubnet_recorded describeBySubnet_reply
        subnetsLoop_all_associated)

text \<open>
  Claim C6, as amended. A pass in which the provider reports every subnet of the list
  as associated issues the describe call and nothing else, and returns the network
  exactly as it was given. Hence, after a successful pass and with the provider
  reporting the associations, a second pass started from the output of the first
  returns that output again with no creation call; a second pass started from the
  original desired state issues no creation call either, but returns that original
  state, without the table identifiers the first pass filled in. For a subnet that the
  association map holds, the iteration of the loop changes nothing: no call is issued
  and the subnet is passed on as it is. In every pass, whatever its outcome, each
  association call names a subnet that the map does not hold, and at most one table
  is created per such subnet. When the provider's reply to the describe call of
  reconcileVPC is the one VPC that an earlier pass returned, reconcileVPC returns that
  VPC again with the describe call alone, whether it is started from the original
  desired VPC or from the earlier output.
\<close>

theorem second_pass_issues_no_creation:
  "(reconcileRouteTables (recording s) net (p, l) = (None, net1, (p1, l1)) \<longrightarrow>
    DescribeRouteTables (EC2 s) [\<lparr>Name = ''vpc-id'', Values = [VPC.ID (VPC net)]\<rparr>] p1
      = (Inr rts, p2) \<longrightarrow>
    (\<forall>sn \<in> set (Subnets net). tablesLoop Map.empty rts (Subnet.ID sn) \<noteq> None) \<longrightarrow>
    reconcileRouteTables (recording s) net1 (p1, []) =
      (None, net1,
       (p2, [CallDescribeRouteTables
               [\<lparr>Name = ''vpc-id'', Values = [VPC.ID (VPC net)]\<rparr>] (Inr rts)])) \<and>
    reconcileRouteTables (recording s) net (p1, []) =
      (None, net,
       (p2, [CallDescribeRouteTables
               [\<lparr>Name = ''vpc-id'', Values = [VPC.ID (VPC net)]\<rparr>] (Inr rts)]))) \<and>
   (m (Subnet.ID sn) = Some t \<longrightarrow>
    subnetsLoop (recording s) m net pre (sn # rest) P =
      subnetsLoop (recording s) m net (pre @ [sn]) rest P) \<and>
   (describeVpcRouteTablesBySubnet s (VPC.ID (VPC net)) p = (Inr m, q) \<longrightarrow>
    reconcileRouteTables (recording s) net (p, []) = (r, net', (p', l')) \<longrightarrow>
    (\<forall>a \<in> set (associations l'). m (snd a) = None) \<and>
    length (createdTables l') \<le> length (filter (\<lambda>sn. m (Subnet.ID sn) = None) (Subnets net))) \<and>
   (DescribeVpcs (EC2 s)
      (if VPC.ID v = [] then \<lparr>VpcIds = [], Filters = addTagFilters s clusterName []\<rparr>
       else \<lparr>VpcIds = [VPC.ID v], Filters = []\<rparr>) pv =
      (Inr [\<lparr>ec2_Vpc.VpcId = VPC.ID v1, ec2_Vpc.CidrBlock = VPC.CidrBlock v1\<rparr>], qv) \<longrightarrow>
    reconcileVPC (recording s) clusterName v (pv, []) =
      (None, v1,
       (qv, [CallDescribeVpcs
               (if VPC.ID v = [] then \<lparr>VpcIds = [], Filters = addTagFilters s clusterName []\<rparr>
                else \<lparr>VpcIds = [VPC.ID v], Filters = []\<rparr>)
               (Inr [\<lparr>ec2_Vpc.VpcId = VPC.ID v1, ec2_Vpc.CidrBlock = VPC.CidrBlock v1\<rparr>])])))"
proof (intro conjI impI)
  assume run: "reconcileRouteTables (recording s) net (p, l) = (None, net1, (p1, l1))"
    and d: "DescribeRouteTables (EC2 s) [\<lparr>Name = ''vpc-id'', Values = [VPC.ID (VPC net)]\<rparr>] p1
              = (Inr rts, p2)"
    and all: "\<forall>sn \<in> set (Subnets net). tablesLoop Map.empty rts (Subnet.ID sn) \<noteq> None"
  from reconcileRouteTables_frame[OF run]
  have f: "VPC net1 = VPC net" "map Subnet.ID (Subnets net1) = map Subnet.ID (Subnets net)"
    by simp_all
  from f(2) have "Subnet.ID ` set (Subnets net1) = Subnet.ID ` set (Subnets net)"
    by (metis set_map)
  with all have all1: "\<forall>sn \<in> set (Subnets net1). tablesLoop Map.empty rts (Subnet.ID sn) \<noteq> None"
    by (metis (no_types, lifting) image_iff)
  from reconcileRouteTables_all_associated[of s net1 p1 rts p2 "[]"] d all1 f(1)
  show "reconcileRouteTables (recording s) net1 (p1, []) =
      (None, net1,
       (p2, [CallDescribeRouteTables
               [\<lparr>Name = ''vpc-id'', Values = [VPC.ID (VPC net)]\<rparr>] (Inr rts)]))"
    by simp
  from reconcileRouteTables_all_associated[OF d all, of "[]"]
  show "reconcileRouteTables (recording s) net (p1, []) =
      (None, net,
       (p2, [CallDescribeRouteTables
               [\<lparr>Name = ''vpc-id'', Values = [VPC.ID (VPC net)]\<rparr>] (Inr rts)]))"
    by simp
next
  assume "m (Subnet.ID sn) = Some t"
  then show "subnetsLoop (recording s) m net pre (sn # rest) P =
      subnetsLoop (recording s) m net (pre @ [sn]) rest P"
    by simp
next
  assume d: "describeVpcRouteTablesBySubnet s (VPC.ID (VPC net)) p = (Inr m, q)"
    and run: "reconcileRouteTables (recording s) net (p, []) = (r, net', (p', l'))"
  let ?f = "[\<lparr>Name = ''vpc-id'', Values = [VPC.ID (VPC net)]\<rparr>]"
  obtain c where loop: "subnetsLoop (recording s) m net [] (Subnets net) (q, [CallDescribeRouteTables ?f c])
                 = (r, Subnets net', (p', l'))"
    using d run
    by (auto simp: reconcileRouteTables_def describeBySubnet_recorded
          describeVpcRouteTablesBySubnet_def describeVpcRouteTables_def
          split: prod.splits sum.splits)
  from subnetsLoop_recorded_any[OF loop] obtain new where
    n: "l' = [CallDescribeRouteTables ?f c] @ new"
       "\<forall>a \<in> set (associations new). m (snd a) = None"
       "length (createdTables new) \<le> length (filter (\<lambda>sn. m (Subnet.ID sn) = None) (Subnets net))"
    by blast
  from n show "\<forall>a \<in> set (associations l'). m (snd a) = None" by simp
  from n show "length (createdTables l')
      \<le> length (filter (\<lambda>sn. m (Subnet.ID sn) = None) (Subnets net))" by simp
next
  assume "DescribeVpcs (EC2 s)
      (if VPC.ID v = [] then \<lparr>VpcIds = [], Filters = addTagFilters s clusterName []\<rparr>
       else \<lparr>VpcIds = [VPC.ID v], Filters = []\<rparr>) pv =
      (Inr [\<lparr>ec2_Vpc.VpcId = VPC.ID v1, ec2_Vpc.CidrBlock = VPC.CidrBlock v1\<rparr>], qv)"
  then show "reconcileVPC (recording s) clusterName v (pv, []) =
      (None, v1,
       (qv, [CallDescribeVpcs
               (if VPC.ID v = [] then \<lparr>VpcIds = [], Filters = addTagFilters s clusterName []\<rparr>
                else \<lparr>VpcIds = [VPC.ID v], Filters = []\<rparr>)
               (Inr [\<lparr>ec2_Vpc.VpcId = VPC.ID v1, ec2_Vpc.CidrBlock = VPC.CidrBlock v1\<rparr>])]))"
    by (auto simp: reconcileVPC_def describeVPC_def Let_def)
qed

theorem second_pass_issues_no_creation_witness:
  "(\<exists>net1 p1 l1 c.
      reconcileRouteTables (recording (fakeService exNat))
        (exNet [exPublic, exPrivate] (Some ''igw-1'')) (fake0, []) = (None, net1, (p1, l1)) \<and>
      createdTables l1 = [''rtb-'', ''rtb-i''] \<and>
      map RouteTableID (Subnets net1) = [Some ''rtb-'', Some ''rtb-i''] \<and>
      reconcileRouteTables (recording (fakeService exNat)) net1 (p1, []) = (None, net1, (p1, [c])) \<and>
      reconcileRouteTables (recording (fakeService exNat))
        (exNet [exPublic, exPrivate] (Some ''igw-1'')) (p1, []) =
        (None, exNet [exPublic, exPrivate] (Some ''igw-1''), (p1, [c])) \<and>
      isCreation c = False) \<and>
   subnetsLoop (recording (fakeService exNat)) [''subnet-a'' \<mapsto> exTable ''rtb-old'' [Some ''subnet-a'']]
       (exNet [exPublic] (Some ''igw-1'')) [] [exPublic] (fake0, []) =
     (None, [exPublic], (fake0, [])) \<and>
   reconcileVPC (recording (fakeService exNat)) ''c'' exVpc
       (fake0\<lparr>fk_vpcs := [(exEc2Vpc ''vpc-1'', [''c''])]\<rparr>, []) =
     (None, exVpc,
      (fake0\<lparr>fk_vpcs := [(exEc2Vpc ''vpc-1'', [''c''])]\<rparr>,
       [CallDescribeVpcs \<lparr>VpcIds = [''vpc-1''], Filters = []\<rparr> (Inr [exEc2Vpc ''vpc-1''])])) \<and>
   reconcileVPC (recording (fakeService exNat)) ''c'' \<lparr>VPC.ID = [], VPC.CidrBlock = []\<rparr>
       (fake0\<lparr>fk_vpcs := [(exEc2Vpc ''vpc-1'', [''c''])]\<rparr>, []) =
     (None, exVpc,
      (fake0\<lparr>fk_vpcs := [(exEc2Vpc ''vpc-1'', [''c''])]\<rparr>,
       [CallDescribeVpcs \<lparr>VpcIds = [], Filters = [\<lparr>Name = ''tag:cluster'', Values = [''c'']\<rparr>]\<rparr>
          (Inr [exEc2Vpc ''vpc-1''])]))"
proof -
  let ?s = "fakeService exNat"
  let ?net = "exNet [exPublic, exPrivate] (Some ''igw-1'')"
  let ?f = "[\<lparr>Name = ''vpc-id'', Values = [VPC.ID (VPC ?net)]\<rparr>]"
  let ?pv = "fake0\<lparr>fk_vpcs := [(exEc2Vpc ''vpc-1'', [''c''])]\<rparr>"
  let ?m = "[''subnet-a'' \<mapsto> exTable ''rtb-old'' [Some ''subnet-a'']]"
  note t = second_pass_issues_no_creation[where s = ?s]
  obtain net1 p1 l1 rts where
    run: "reconcileRouteTables (recording ?s) ?net (fake0, []) = (None, net1, (p1, l1))"
    and vals: "createdTables l1 = [''rtb-'', ''rtb-i'']"
      "map RouteTableID (Subnets net1) = [Some ''rtb-'', Some ''rtb-i'']"
    and d: "DescribeRouteTables (EC2 ?s) ?f p1 = (Inr rts, p1)"
    and all: "\<forall>sn \<in> set (Subnets ?net). tablesLoop Map.empty rts (Subnet.ID sn) \<noteq> None"
    by (simp add: method_defs fake_defs)
  from t[where net = ?net and p = fake0 and l = "[]" and ?net1.0 = net1 and ?p1.0 = p1
          and ?l1.0 = l1 and rts = rts and ?p2.0 = p1] run d all
  have again: "reconcileRouteTables (recording ?s) net1 (p1, []) =
      (None, net1, (p1, [CallDescribeRouteTables ?f (Inr rts)]))"
    and fresh: "reconcileRouteTables (recording ?s) ?net (p1, []) =
      (None, ?net, (p1, [CallDescribeRouteTables ?f (Inr rts)]))"
    by blast+
  have first: "\<exists>net1 p1 l1 c.
      reconcileRouteTables (recording ?s) ?net (fake0, []) = (None, net1, (p1, l1)) \<and>
      createdTables l1 = [''rtb-'', ''rtb-i''] \<and>
      map RouteTableID (Subnets net1) = [Some ''rtb-'', Some ''rtb-i''] \<and>
      reconcileRouteTables (recording ?s) net1 (p1, []) = (None, net1, (p1, [c])) \<and>
      reconcileRouteTables (recording ?s) ?net (p1, []) = (None, ?net, (p1, [c])) \<and>
      isCreation c = False"
    using run vals again fresh
    by (intro exI[of _ net1] exI[of _ p1] exI[of _ l1]
          exI[of _ "CallDescribeRouteTables ?f (Inr rts)"]) simp
  have "?m (Subnet.ID exPublic) = Some (exTable ''rtb-old'' [Some ''subnet-a''])"
    by (simp add: exPublic_def)
  with t[where m = ?m and sn = exPublic and t = "exTable ''rtb-old'' [Some ''subnet-a'']"
          and net = "exNet [exPublic] (Some ''igw-1'')" and pre = "[]" and rest = "[]"
          and P = "(fake0, [])"]
  have second: "subnetsLoop (recording ?s) ?m (exNet [exPublic] (Some ''igw-1'')) [] [exPublic] (fake0, []) =
     (None, [exPublic], (fake0, []))"
    by simp
  let ?v0 = "\<lparr>VPC.ID = [], VPC.CidrBlock = []\<rparr>"
  have "DescribeVpcs (EC2 ?s)
      (if VPC.ID exVpc = [] then \<lparr>VpcIds = [], Filters = addTagFilters ?s ''c'' []\<rparr>
       else \<lparr>VpcIds = [VPC.ID exVpc], Filters = []\<rparr>) ?pv =
      (Inr [\<lparr>ec2_Vpc.VpcId = VPC.ID exVpc, ec2_Vpc.CidrBlock = VPC.CidrBlock exVpc\<rparr>], ?pv)"
    by (simp add: fake_defs)
  with t[where v = exVpc and ?v1.0 = exVpc and pv = ?pv and qv = ?pv and clusterName = "''c''"]
  have "reconcileVPC (recording ?s) ''c'' exVpc (?pv, []) =
      (None, exVpc,
       (?pv, [CallDescribeVpcs
               (if VPC.ID exVpc = [] then \<lparr>VpcIds = [], Filters = addTagFilters ?s ''c'' []\<rparr>
                else \<lparr>VpcIds = [VPC.ID exVpc], Filters = []\<rparr>)
               (Inr [\<lparr>ec2_Vpc.VpcId = VPC.ID exVpc, ec2_Vpc.CidrBlock = VPC.CidrBlock exVpc\<rparr>])]))"
    by blast
  then have third: "reconcileVPC (recording ?s) ''c'' exVpc (?pv, []) =
     (None, exVpc,
      (?pv, [CallDescribeVpcs \<lparr>VpcIds = [''vpc-1''], Filters = []\<rparr> (Inr [exEc2Vpc ''vpc-1''])]))"
    by (simp add: exVpc_def exEc2Vpc_def)
  have "DescribeVpcs (EC2 ?s)
      (if VPC.ID ?v0 = [] then \<lparr>VpcIds = [], Filters = addTagFilters ?s ''c'' []\<rparr>
       else \<lparr>VpcIds = [VPC.ID ?v0], Filters = []\<rparr>) ?pv =
      (Inr [\<lparr>ec2_Vpc.VpcId = VPC.ID exVpc, ec2_Vpc.CidrBlock = VPC.CidrBlock exVpc\<rparr>], ?pv)"
    by (simp add: fake_defs)
  with t[where v = ?v0 and ?v1.0 = exVpc and pv = ?pv and qv = ?pv and clusterName = "''c''"]
  have "reconcileVPC (recording ?s) ''c'' ?v0 (?pv, []) =
      (None, exVpc,
       (?pv, [CallDescribeVpcs
               (if VPC.ID ?v0 = [] then \<lparr>VpcIds = [], Filters = addTagFilters ?s ''c'' []\<rparr>
                else \<lparr>VpcIds = [VPC.ID ?v0], Filters = []\<rparr>)
               (Inr [\<lparr>ec2_Vpc.VpcId = VPC.ID exVpc, ec2_Vpc.CidrBlock = VPC.CidrBlock exVpc\<rparr>])]))"
    by blast
  then have fourth: "reconcileVPC (recording ?s) ''c'' ?v0 (?pv, []) =
     (None, exVpc,
      (?pv, [CallDescribeVpcs \<lparr>VpcIds = [], Filters = [\<lparr>Name = ''tag:cluster'', Values = [''c'']\<rparr>]\<rparr>
          (Inr [exEc2Vpc ''vpc-1''])]))"
    by (simp add: exVpc_def exEc2Vpc_def fakeService_def)
  from first second third fourth show ?thesis by blast
qed

text \<open>
  The claim as stated fails on the output of the second run: two passes against the
  same desired state, the second on the provider state the first left, both return
  without error, and their outputs differ. The first pass fills in the identifier of
  the table it created; the second takes the skip path and returns the subnet with
  RouteTableID nil.
\<close>

theorem second_pass_output_differs:
  "reconcileRouteTables (fakeService []) (exNet [exPublic] (Some ''igw-1'')) fake0 =
     (None, exNet [exPublic\<lparr>RouteTableID := Some ''rtb-''\<rparr>] (Some ''igw-1''),
      fake0\<lparr>fk_tables := [(exTable ''rtb-'' [Some ''subnet-a''])
                              \<lparr>Routes := getDefaultPublicRoutes ''igw-1''\<rparr>],
            fk_serial := Suc 0\<rparr>) \<and>
   reconcileRouteTables (fakeService []) (exNet [exPublic] (Some ''igw-1''))
       (fake0\<lparr>fk_tables := [(exTable ''rtb-'' [Some ''subnet-a''])
                               \<lparr>Routes := getDefaultPublicRoutes ''igw-1''\<rparr>],
              fk_serial := Suc 0\<rparr>) =
     (None, exNet [exPublic] (Some ''igw-1''),
      fake0\<lparr>fk_tables := [(exTable ''rtb-'' [Some ''subnet-a''])
                              \<lparr>Routes := getDefaultPublicRoutes ''igw-1''\<rparr>],
            fk_serial := Suc 0\<rparr>) \<and>
   exNet [exPublic\<lparr>RouteTableID := Some ''rtb-''\<rparr>] (Some ''igw-1'')
     \<noteq> exNet [exPublic] (Some ''igw-1'')"
  by (simp add: method_defs fake_defs)

end
